theory Spec2Isabelle
  imports Complex_Main "HOL-Library.Word" "HOL-Library.Log_Nat"
begin

unbundle bit_operations_syntax

section \<open>MLX90614 infra red thermometer driver: data model\<close>

text \<open>
  The driver of \<^verbatim>\<open>Src/mlx90614_ir_thermometer_driver.c\<close>. Bytes are \<open>8 word\<close>, the raw
  temperature is a \<open>16 word\<close>; \<open>push_bit 1\<close> on a byte is the C \<^verbatim>\<open>x << 1\<close> stored back
  into a \<^verbatim>\<open>uint8_t\<close>.
\<close>

type_synonym uint8_t = "8 word"
type_synonym uint16_t = "16 word"

text \<open>
  The status enum of the STM32 HAL (\<^verbatim>\<open>HAL_OK = 0, HAL_ERROR = 1, HAL_BUSY = 2,
  HAL_TIMEOUT = 3\<close>) and the status enum of the driver (\<^verbatim>\<open>MLX90614_EC_OK = 0,
  MLX90614_EC_STOP = 1, MLX90614_EC_NR = 2, MLX90614_EC_NA = 3, MLX90614_EC_ERR = 4\<close>).
\<close>

datatype HAL_StatusTypeDef = HAL_OK | HAL_ERROR | HAL_BUSY | HAL_TIMEOUT

datatype MLX90614_Status =
  MLX90614_EC_OK | MLX90614_EC_STOP | MLX90614_EC_NR | MLX90614_EC_NA | MLX90614_EC_ERR

text \<open>
  \<^verbatim>\<open>MLX90614_Temp_t\<close> is a C enum, so a caller can hand over any integer; the three
  named values are 0, 1 and 2.
\<close>

type_synonym MLX90614_Temp_t = int

definition MLX90614_Temp_K :: MLX90614_Temp_t where "MLX90614_Temp_K = 0"
definition MLX90614_Temp_C :: MLX90614_Temp_t where "MLX90614_Temp_C = 1"
definition MLX90614_Temp_F :: MLX90614_Temp_t where "MLX90614_Temp_F = 2"

subsection \<open>Constants of the header and of the source file\<close>

definition MLX90614_I2C_TIMEOUT :: nat where "MLX90614_I2C_TIMEOUT = 100"
definition MLX90614_ERASE_OR_WRITE_CELL_TIME :: nat where "MLX90614_ERASE_OR_WRITE_CELL_TIME = 1000"
definition IS_MLX90614_READY_NUMBER_OF_TRIALS :: nat where "IS_MLX90614_READY_NUMBER_OF_TRIALS = 1"

definition MLX90614_RAM_OR_EEPROM_ADDRESS_SIZE :: nat where "MLX90614_RAM_OR_EEPROM_ADDRESS_SIZE = 1"
definition MLX90614_TA_RAM_ADDRESS :: uint8_t where "MLX90614_TA_RAM_ADDRESS = 0x06"
definition MLX90614_TOBJ1_RAM_ADDRESS :: uint8_t where "MLX90614_TOBJ1_RAM_ADDRESS = 0x07"
definition MLX90614_TOBJ2_RAM_ADDRESS :: uint8_t where "MLX90614_TOBJ2_RAM_ADDRESS = 0x08"
definition MLX90614_TEMPERATURE_RESULT_SIZE :: nat where "MLX90614_TEMPERATURE_RESULT_SIZE = 2"
definition MLX90614_EEPROM_SLAVE_ADDRESS_SIZE :: nat where "MLX90614_EEPROM_SLAVE_ADDRESS_SIZE = 2"
definition MLX90614_I2C_WRITE_COMMAND_SIZE :: nat where "MLX90614_I2C_WRITE_COMMAND_SIZE = 4"
definition MLX90614_SLAVE_ADDRESS_EEPROM_ADDRESS :: uint8_t where
  "MLX90614_SLAVE_ADDRESS_EEPROM_ADDRESS = 0x2E"
definition MLX90614_PEC_RESET_VALUE :: uint8_t where "MLX90614_PEC_RESET_VALUE = 0x00"
definition MLX90614_SLAVE_ADDRESS_EEPROM_ERASE_VALUE :: uint8_t where
  "MLX90614_SLAVE_ADDRESS_EEPROM_ERASE_VALUE = 0x00"
definition MLX90614_MAX_VALID_SLAVE_ADDRESS_VALUE :: uint8_t where
  "MLX90614_MAX_VALID_SLAVE_ADDRESS_VALUE = 0x7E"
definition MLX90614_MAX_VALID_SLAVE_ADDRESS_VALUE_PLUS_ONE :: uint8_t where
  "MLX90614_MAX_VALID_SLAVE_ADDRESS_VALUE_PLUS_ONE = 0x7F"
definition MLX90614_MIN_VALID_SLAVE_ADDRESS_VALUE :: uint8_t where
  "MLX90614_MIN_VALID_SLAVE_ADDRESS_VALUE = 0x03"

section \<open>The PEC byte\<close>

text \<open>
  \<^verbatim>\<open>calculate_pec\<close>: the \<^verbatim>\<open>for (int i=0; i<8; i++)\<close> loop is the recursion
  \<open>calculate_pec_loop\<close> on the counter \<open>i\<close>.
\<close>

function calculate_pec_loop :: "nat \<Rightarrow> uint8_t \<Rightarrow> uint8_t" where
  "calculate_pec_loop i data =
     (if i < 8 then
        (let bit_check = data AND 0x80;
             data1 = push_bit 1 data;
             data2 = (if bit_check \<noteq> 0 then data1 XOR 0x07 else data1)
         in calculate_pec_loop (i + 1) data2)
      else data)"
  by pat_completeness auto
termination
  by (relation "measure (\<lambda>(i, data). 8 - i)") auto

declare calculate_pec_loop.simps [simp del]

definition calculate_pec :: "uint8_t \<Rightarrow> uint8_t \<Rightarrow> uint8_t" where
  "calculate_pec init_pec new_data = calculate_pec_loop 0 (init_pec XOR new_data)"

text \<open>
  The checksum as the specification words it: an accumulator starting at 0; each byte is
  XORed in, then eight times the accumulator is shifted left, and XORed with 0x07 when the
  bit shifted out was set.
\<close>

definition crc8_shift :: "uint8_t \<Rightarrow> uint8_t" where
  "crc8_shift acc = (if bit acc 7 then push_bit 1 acc XOR 0x07 else push_bit 1 acc)"

definition crc8_byte :: "uint8_t \<Rightarrow> uint8_t \<Rightarrow> uint8_t" where
  "crc8_byte acc b = (crc8_shift ^^ 8) (acc XOR b)"

definition crc8_spec :: "uint8_t list \<Rightarrow> uint8_t" where
  "crc8_spec bs = foldl crc8_byte 0 bs"

text \<open>
  The two four-byte commands that \<^verbatim>\<open>set_mlx90614_device_slave_address\<close> builds in
  \<^verbatim>\<open>new_mlx90614_eeprom_value\<close>: STEP 2 (erase) and STEP 3 (write), each with its four
  \<^verbatim>\<open>calculate_pec\<close> calls. \<open>wire\<close> is \<^verbatim>\<open>mlx90614_slave_address_one_bit_left_shifted\<close>.
\<close>

definition erase_command :: "uint8_t \<Rightarrow> uint8_t list" where
  "erase_command wire =
     (let v0 = [MLX90614_SLAVE_ADDRESS_EEPROM_ADDRESS, MLX90614_SLAVE_ADDRESS_EEPROM_ERASE_VALUE,
                MLX90614_SLAVE_ADDRESS_EEPROM_ERASE_VALUE, MLX90614_PEC_RESET_VALUE];
          v1 = v0[3 := calculate_pec (v0 ! 3) wire];
          v2 = v1[3 := calculate_pec (v1 ! 3) (v1 ! 0)];
          v3 = v2[3 := calculate_pec (v2 ! 3) (v2 ! 1)];
          v4 = v3[3 := calculate_pec (v3 ! 3) (v3 ! 2)]
      in v4)"

definition write_command :: "uint8_t \<Rightarrow> uint8_t list \<Rightarrow> uint8_t \<Rightarrow> uint8_t \<Rightarrow> uint8_t list" where
  "write_command wire v new_slave_address received_i2cdata_1 =
     (let v0 = v[1 := new_slave_address];
          v1 = v0[2 := received_i2cdata_1];
          v2 = v1[3 := calculate_pec MLX90614_PEC_RESET_VALUE wire];
          v3 = v2[3 := calculate_pec (v2 ! 3) (v2 ! 0)];
          v4 = v3[3 := calculate_pec (v3 ! 3) (v3 ! 1)];
          v5 = v4[3 := calculate_pec (v4 ! 3) (v4 ! 2)]
      in v5)"

section \<open>The transport and the driver state\<close>

text \<open>
  The STM32 HAL is outside the repository, so it is a parameter: a record of the four
  functions the driver calls, over an arbitrary bus state \<open>'b\<close>. A handle is the pointer
  value (\<open>0\<close> is \<^verbatim>\<open>NULL\<close>), the device address is the byte the driver passes, and a
  read hands back the two bytes left in the receive buffer.
\<close>

record 'b HAL =
  HAL_I2C_IsDeviceReady :: "nat \<Rightarrow> uint8_t \<Rightarrow> nat \<Rightarrow> nat \<Rightarrow> 'b \<Rightarrow> HAL_StatusTypeDef \<times> 'b"
  HAL_I2C_Mem_Read ::
    "nat \<Rightarrow> uint8_t \<Rightarrow> uint8_t \<Rightarrow> nat \<Rightarrow> nat \<Rightarrow> nat \<Rightarrow> 'b \<Rightarrow> (HAL_StatusTypeDef \<times> uint8_t \<times> uint8_t) \<times> 'b"
  HAL_I2C_Master_Transmit ::
    "nat \<Rightarrow> uint8_t \<Rightarrow> uint8_t list \<Rightarrow> nat \<Rightarrow> nat \<Rightarrow> 'b \<Rightarrow> HAL_StatusTypeDef \<times> 'b"
  HAL_Delay :: "nat \<Rightarrow> 'b \<Rightarrow> 'b"

text \<open>The calls the driver issues, in order, with their arguments.\<close>

datatype HAL_call =
    Call_IsDeviceReady nat uint8_t nat nat
  | Call_Mem_Read nat uint8_t uint8_t nat nat nat
  | Call_Master_Transmit nat uint8_t "uint8_t list" nat nat
  | Call_Delay nat

text \<open>
  Everything outside the driver's globals: the bus, the log of HAL calls, and the memory
  of \<^verbatim>\<open>float\<close> cells that the \<^verbatim>\<open>dst\<close> pointers of the temperature getters refer to.
\<close>

record 'b world =
  hw :: 'b
  trace :: "HAL_call list"
  mem :: "nat \<Rightarrow> real"

definition call_IsDeviceReady ::
  "'b HAL \<Rightarrow> nat \<Rightarrow> uint8_t \<Rightarrow> nat \<Rightarrow> nat \<Rightarrow> 'b world \<Rightarrow> HAL_StatusTypeDef \<times> 'b world" where
  "call_IsDeviceReady H h a n t w =
     (let (r, b) = HAL_I2C_IsDeviceReady H h a n t (hw w)
      in (r, w\<lparr>hw := b, trace := trace w @ [Call_IsDeviceReady h a n t]\<rparr>))"

definition call_Mem_Read ::
  "'b HAL \<Rightarrow> nat \<Rightarrow> uint8_t \<Rightarrow> uint8_t \<Rightarrow> nat \<Rightarrow> nat \<Rightarrow> nat \<Rightarrow> 'b world
     \<Rightarrow> (HAL_StatusTypeDef \<times> uint8_t \<times> uint8_t) \<times> 'b world" where
  "call_Mem_Read H h a m ms n t w =
     (let (r, b) = HAL_I2C_Mem_Read H h a m ms n t (hw w)
      in (r, w\<lparr>hw := b, trace := trace w @ [Call_Mem_Read h a m ms n t]\<rparr>))"

definition call_Master_Transmit ::
  "'b HAL \<Rightarrow> nat \<Rightarrow> uint8_t \<Rightarrow> uint8_t list \<Rightarrow> nat \<Rightarrow> nat \<Rightarrow> 'b world \<Rightarrow> HAL_StatusTypeDef \<times> 'b world" where
  "call_Master_Transmit H h a d n t w =
     (let (r, b) = HAL_I2C_Master_Transmit H h a d n t (hw w)
      in (r, w\<lparr>hw := b, trace := trace w @ [Call_Master_Transmit h a d n t]\<rparr>))"

definition call_Delay :: "'b HAL \<Rightarrow> nat \<Rightarrow> 'b world \<Rightarrow> 'b world" where
  "call_Delay H n w = w\<lparr>hw := HAL_Delay H n (hw w), trace := trace w @ [Call_Delay n]\<rparr>"

text \<open>
  The static variables of the source file. \<^verbatim>\<open>p_get_mlx90614_converted_temperature\<close> is a
  function pointer: \<open>None\<close> is the null pointer it holds before initialisation.
\<close>

record driver =
  p_hi2c :: nat
  mlx90614_slave_address :: uint8_t
  mlx90614_slave_address_one_bit_left_shifted :: uint8_t
  mlx90614_temperature_type :: MLX90614_Temp_t
  p_get_mlx90614_converted_temperature :: "(uint16_t \<Rightarrow> real) option"

definition initial_driver :: driver where
  "initial_driver =
     \<lparr>p_hi2c = 0, mlx90614_slave_address = 0x5A,
      mlx90614_slave_address_one_bit_left_shifted = 0,
      mlx90614_temperature_type = 0,
      p_get_mlx90614_converted_temperature = None\<rparr>"

section \<open>Status mapping\<close>

text \<open>
  \<^verbatim>\<open>HAL_ret_handler\<close>. The default branch hands the HAL value back as a driver status;
  the only value that reaches it is \<^verbatim>\<open>HAL_OK\<close> (0), which is \<^verbatim>\<open>MLX90614_EC_OK\<close> (0). The
  callers' test \<^verbatim>\<open>ret != HAL_OK\<close> on the mapped value is therefore \<open>ret \<noteq> MLX90614_EC_OK\<close>.
\<close>

fun HAL_ret_handler :: "HAL_StatusTypeDef \<Rightarrow> MLX90614_Status" where
  "HAL_ret_handler HAL_BUSY = MLX90614_EC_NR"
| "HAL_ret_handler HAL_TIMEOUT = MLX90614_EC_NR"
| "HAL_ret_handler HAL_ERROR = MLX90614_EC_ERR"
| "HAL_ret_handler HAL_OK = MLX90614_EC_OK"

section \<open>Conversions\<close>

text \<open>
  C's \<^verbatim>\<open>float\<close> and \<^verbatim>\<open>double\<close> are the IEEE 754 binary32 and binary64 formats. Their
  values are real numbers; the result of a conversion or of an arithmetic operation is the
  exact result rounded to the nearest value with 24, respectively 53, significant bits,
  ties to the even significand. \<open>exponent2 x\<close> is the exponent of the leading bit of \<open>x\<close>.
  The exponent range is not modelled: every value that occurs in the conversions lies far
  inside the normal range of both formats.
\<close>

definition two_power :: "int \<Rightarrow> real" where
  "two_power e = (if 0 \<le> e then 2 ^ nat e else 1 / 2 ^ nat (- e))"

definition round_half_even :: "real \<Rightarrow> int" where
  "round_half_even x =
     (let f = \<lfloor>x\<rfloor>; d = x - of_int f
      in if d < 1 / 2 then f else if 1 / 2 < d then f + 1 else if even f then f else f + 1)"

definition exponent2 :: "real \<Rightarrow> int" where
  "exponent2 x =
     (if 1 \<le> \<bar>x\<bar> then int (floorlog 2 (nat \<lfloor>\<bar>x\<bar>\<rfloor>)) - 1
      else - int (floorlog 2 (nat (\<lceil>1 / \<bar>x\<bar>\<rceil> - 1))))"

definition round_to_precision :: "nat \<Rightarrow> real \<Rightarrow> real" where
  "round_to_precision p x =
     (if x = 0 then 0
      else (let e = exponent2 x - int p + 1
            in of_int (round_half_even (x / two_power e)) * two_power e))"

definition to_float :: "real \<Rightarrow> real" where
  "to_float x = round_to_precision 24 x"

definition to_double :: "real \<Rightarrow> real" where
  "to_double x = round_to_precision 53 x"

text \<open>
  The three conversion functions. \<^verbatim>\<open>(float) raw_temp\<close> is a \<^verbatim>\<open>float\<close>; the constants
  \<^verbatim>\<open>50.0\<close>, \<^verbatim>\<open>273.15\<close>, \<^verbatim>\<open>1.8\<close> and \<^verbatim>\<open>32.0\<close> are \<^verbatim>\<open>double\<close> literals, so each operation
  is a \<^verbatim>\<open>double\<close> operation, rounded on its own, and the \<^verbatim>\<open>return\<close> converts the result
  to \<^verbatim>\<open>float\<close>.
\<close>

definition get_mlx90614_converted_temperature_in_kelvin :: "uint16_t \<Rightarrow> real" where
  "get_mlx90614_converted_temperature_in_kelvin raw_temp =
     to_float (to_double (to_float (real (unat raw_temp)) / to_double 50.0))"

definition get_mlx90614_converted_temperature_in_celsius :: "uint16_t \<Rightarrow> real" where
  "get_mlx90614_converted_temperature_in_celsius raw_temp =
     to_float (to_double (to_double (to_float (real (unat raw_temp)) / to_double 50.0)
                            - to_double 273.15))"

definition get_mlx90614_converted_temperature_in_fahrenheit :: "uint16_t \<Rightarrow> real" where
  "get_mlx90614_converted_temperature_in_fahrenheit raw_temp =
     to_float (to_double (to_double (to_double (to_double (to_float (real (unat raw_temp))
                                                               / to_double 50.0)
                                                    - to_double 273.15)
                                         * to_double 1.8)
                            + to_double 32.0))"

section \<open>Initialisation and the believed address\<close>

text \<open>
  The \<^verbatim>\<open>switch (temp_t)\<close> that \<^verbatim>\<open>init_mlx90614_module\<close> and
  \<^verbatim>\<open>set_mlx90614_temperature_type\<close> both contain, followed by the assignment to
  \<^verbatim>\<open>mlx90614_temperature_type\<close>: the \<^verbatim>\<open>default\<close> branch returns \<^verbatim>\<open>MLX90614_EC_ERR\<close>
  before anything is stored.
\<close>

definition switch_temp_t :: "MLX90614_Temp_t \<Rightarrow> driver \<Rightarrow> MLX90614_Status \<times> driver" where
  "switch_temp_t temp_t drv =
     (if temp_t = MLX90614_Temp_K then
        (MLX90614_EC_OK,
         drv\<lparr>p_get_mlx90614_converted_temperature := Some get_mlx90614_converted_temperature_in_kelvin,
             mlx90614_temperature_type := temp_t\<rparr>)
      else if temp_t = MLX90614_Temp_C then
        (MLX90614_EC_OK,
         drv\<lparr>p_get_mlx90614_converted_temperature := Some get_mlx90614_converted_temperature_in_celsius,
             mlx90614_temperature_type := temp_t\<rparr>)
      else if temp_t = MLX90614_Temp_F then
        (MLX90614_EC_OK,
         drv\<lparr>p_get_mlx90614_converted_temperature := Some get_mlx90614_converted_temperature_in_fahrenheit,
             mlx90614_temperature_type := temp_t\<rparr>)
      else (MLX90614_EC_ERR, drv))"

text \<open>
  \<^verbatim>\<open>init_mlx90614_module\<close>. The probe is made through \<^verbatim>\<open>p_hi2c\<close> as it is on entry;
  \<^verbatim>\<open>hi2c\<close> is stored after the address branch.
\<close>

definition init_mlx90614_module ::
  "'b HAL \<Rightarrow> nat \<Rightarrow> uint8_t \<Rightarrow> MLX90614_Temp_t \<Rightarrow> driver \<Rightarrow> 'b world
     \<Rightarrow> MLX90614_Status \<times> driver \<times> 'b world" where
  "init_mlx90614_module H hi2c slave_address temp_t drv w =
     (if slave_address > MLX90614_MAX_VALID_SLAVE_ADDRESS_VALUE then (MLX90614_EC_ERR, drv, w)
      else if slave_address \<noteq> 0 then
        (let tmp_slave_addr_one_bit_left_shifted = push_bit 1 slave_address;
             (r, w1) = call_IsDeviceReady H (p_hi2c drv) tmp_slave_addr_one_bit_left_shifted
                         IS_MLX90614_READY_NUMBER_OF_TRIALS MLX90614_I2C_TIMEOUT w
         in if r \<noteq> HAL_OK then (MLX90614_EC_NR, drv, w1)
            else
              (let drv1 = drv\<lparr>mlx90614_slave_address := slave_address,
                              mlx90614_slave_address_one_bit_left_shifted :=
                                tmp_slave_addr_one_bit_left_shifted\<rparr>;
                   drv2 = drv1\<lparr>p_hi2c := hi2c\<rparr>;
                   (ret, drv3) = switch_temp_t temp_t drv2
               in (ret, drv3, w1)))
      else
        (let drv1 = drv\<lparr>mlx90614_slave_address_one_bit_left_shifted :=
                           push_bit 1 (mlx90614_slave_address drv)\<rparr>;
             drv2 = drv1\<lparr>p_hi2c := hi2c\<rparr>;
             (ret, drv3) = switch_temp_t temp_t drv2
         in (ret, drv3, w)))"

text \<open>
  \<^verbatim>\<open>find_mlx90614_slave_address\<close>: the \<^verbatim>\<open>for\<close> loop over \<^verbatim>\<open>current_slave_address\<close> is
  \<open>find_loop\<close>; the counter stays below \<^verbatim>\<open>0x7F\<close>, so its increment never wraps.
\<close>

function find_loop ::
  "'b HAL \<Rightarrow> uint8_t \<Rightarrow> driver \<Rightarrow> 'b world \<Rightarrow> MLX90614_Status \<times> driver \<times> 'b world" where
  "find_loop H current_slave_address drv w =
     (if current_slave_address < MLX90614_MAX_VALID_SLAVE_ADDRESS_VALUE_PLUS_ONE then
        (let current_slave_address_one_bit_left_shifted = push_bit 1 current_slave_address;
             (r, w1) = call_IsDeviceReady H (p_hi2c drv) current_slave_address_one_bit_left_shifted
                         IS_MLX90614_READY_NUMBER_OF_TRIALS MLX90614_I2C_TIMEOUT w
         in if r = HAL_OK then
              (MLX90614_EC_OK,
               drv\<lparr>mlx90614_slave_address := current_slave_address,
                   mlx90614_slave_address_one_bit_left_shifted :=
                     current_slave_address_one_bit_left_shifted\<rparr>,
               w1)
            else find_loop H (current_slave_address + 1) drv w1)
      else (MLX90614_EC_NR, drv, w))"
  by pat_completeness auto
termination
proof (relation "measure (\<lambda>(H, c, drv, w). 127 - unat c)")
  fix H :: "'b HAL" and c :: uint8_t and drv :: driver and w w1 :: "'b world"
  assume "c < MLX90614_MAX_VALID_SLAVE_ADDRESS_VALUE_PLUS_ONE"
  then have lt: "unat c < 127"
    by (simp add: MLX90614_MAX_VALID_SLAVE_ADDRESS_VALUE_PLUS_ONE_def word_less_nat_alt)
  then have "unat (c + 1) = unat c + 1"
    by (simp add: unat_word_ariths)
  with lt show "((H, c + 1, drv, w1), (H, c, drv, w)) \<in> measure (\<lambda>(H, c, drv, w). 127 - unat c)"
    by simp
qed simp

declare find_loop.simps [simp del]

definition find_mlx90614_slave_address ::
  "'b HAL \<Rightarrow> driver \<Rightarrow> 'b world \<Rightarrow> MLX90614_Status \<times> driver \<times> 'b world" where
  "find_mlx90614_slave_address H drv w =
     find_loop H MLX90614_MIN_VALID_SLAVE_ADDRESS_VALUE drv w"

definition get_mlx90614_module_slave_address :: "driver \<Rightarrow> uint8_t" where
  "get_mlx90614_module_slave_address drv = mlx90614_slave_address drv"

definition set_mlx90614_module_slave_address ::
  "'b HAL \<Rightarrow> uint8_t \<Rightarrow> driver \<Rightarrow> 'b world \<Rightarrow> MLX90614_Status \<times> driver \<times> 'b world" where
  "set_mlx90614_module_slave_address H slave_address drv w =
     (if slave_address > MLX90614_MAX_VALID_SLAVE_ADDRESS_VALUE
         \<or> slave_address < MLX90614_MIN_VALID_SLAVE_ADDRESS_VALUE
      then (MLX90614_EC_ERR, drv, w)
      else
        (let tmp_slave_addr_one_bit_left_shifted = push_bit 1 slave_address;
             (r, w1) = call_IsDeviceReady H (p_hi2c drv) tmp_slave_addr_one_bit_left_shifted
                         IS_MLX90614_READY_NUMBER_OF_TRIALS MLX90614_I2C_TIMEOUT w
         in if r \<noteq> HAL_OK then (MLX90614_EC_NR, drv, w1)
            else
              (MLX90614_EC_OK,
               drv\<lparr>mlx90614_slave_address := slave_address,
                   mlx90614_slave_address_one_bit_left_shifted :=
                     tmp_slave_addr_one_bit_left_shifted\<rparr>,
               w1)))"

section \<open>Rewriting the address stored in the device\<close>

text \<open>
  \<^verbatim>\<open>set_mlx90614_device_slave_address\<close>: STEP 1 reads the EEPROM cell, STEP 2 erases it,
  STEP 3 writes the new address with the high byte read in STEP 1, then the globals are
  updated. \<^verbatim>\<open>received_i2cdata[1]\<close> is the second byte of the read.
\<close>

definition set_mlx90614_device_slave_address ::
  "'b HAL \<Rightarrow> uint8_t \<Rightarrow> driver \<Rightarrow> 'b world \<Rightarrow> MLX90614_Status \<times> driver \<times> 'b world" where
  "set_mlx90614_device_slave_address H new_slave_address drv w =
     (if new_slave_address > MLX90614_MAX_VALID_SLAVE_ADDRESS_VALUE
         \<or> new_slave_address < MLX90614_MIN_VALID_SLAVE_ADDRESS_VALUE
      then (MLX90614_EC_ERR, drv, w)
      else
        (let wire = mlx90614_slave_address_one_bit_left_shifted drv;
             ((r1, received_i2cdata_0, received_i2cdata_1), w1) =
               call_Mem_Read H (p_hi2c drv) wire MLX90614_SLAVE_ADDRESS_EEPROM_ADDRESS
                 MLX90614_RAM_OR_EEPROM_ADDRESS_SIZE MLX90614_EEPROM_SLAVE_ADDRESS_SIZE
                 MLX90614_I2C_TIMEOUT w;
             ret1 = HAL_ret_handler r1
         in if ret1 \<noteq> MLX90614_EC_OK then (ret1, drv, w1)
            else
              (let new_mlx90614_eeprom_value = erase_command wire;
                   (r2, w2) = call_Master_Transmit H (p_hi2c drv) wire new_mlx90614_eeprom_value
                                MLX90614_I2C_WRITE_COMMAND_SIZE MLX90614_I2C_TIMEOUT w1;
                   ret2 = HAL_ret_handler r2
               in if ret2 \<noteq> MLX90614_EC_OK then (ret2, drv, w2)
                  else
                    (let w3 = call_Delay H MLX90614_ERASE_OR_WRITE_CELL_TIME w2;
                         new_mlx90614_eeprom_value' =
                           write_command wire new_mlx90614_eeprom_value new_slave_address
                             received_i2cdata_1;
                         (r3, w4) = call_Master_Transmit H (p_hi2c drv) wire
                                      new_mlx90614_eeprom_value'
                                      MLX90614_I2C_WRITE_COMMAND_SIZE MLX90614_I2C_TIMEOUT w3;
                         ret3 = HAL_ret_handler r3
                     in if ret3 \<noteq> MLX90614_EC_OK then (ret3, drv, w4)
                        else
                          (let w5 = call_Delay H MLX90614_ERASE_OR_WRITE_CELL_TIME w4
                           in (MLX90614_EC_OK,
                               drv\<lparr>mlx90614_slave_address := new_slave_address,
                                   mlx90614_slave_address_one_bit_left_shifted :=
                                     push_bit 1 new_slave_address\<rparr>,
                               w5))))))"

section \<open>Temperature type and temperature readings\<close>

definition get_mlx90614_temperature_type :: "driver \<Rightarrow> MLX90614_Temp_t" where
  "get_mlx90614_temperature_type drv = mlx90614_temperature_type drv"

definition set_mlx90614_temperature_type :: "MLX90614_Temp_t \<Rightarrow> driver \<Rightarrow> MLX90614_Status \<times> driver" where
  "set_mlx90614_temperature_type temp_t drv = switch_temp_t temp_t drv"

text \<open>
  The three getters. \<^verbatim>\<open>raw_temp\<close> is \<^verbatim>\<open>(i2cdata[1]<<8) | i2cdata[0]\<close>. The result is
  \<open>None\<close> when the conversion would be called through a null function pointer, which C
  leaves undefined; otherwise the status and the world, in which \<^verbatim>\<open>*dst\<close> is stored on
  success. The driver's globals are only read.
\<close>

definition raw_temp_of :: "uint8_t \<Rightarrow> uint8_t \<Rightarrow> uint16_t" where
  "raw_temp_of i2cdata_0 i2cdata_1 = push_bit 8 (ucast i2cdata_1) OR ucast i2cdata_0"

definition get_mlx90614_ambient_temperature ::
  "'b HAL \<Rightarrow> nat \<Rightarrow> driver \<Rightarrow> 'b world \<Rightarrow> (MLX90614_Status \<times> 'b world) option" where
  "get_mlx90614_ambient_temperature H dst drv w =
     (let ((r, i2cdata_0, i2cdata_1), w1) =
            call_Mem_Read H (p_hi2c drv) (mlx90614_slave_address_one_bit_left_shifted drv)
              MLX90614_TA_RAM_ADDRESS MLX90614_RAM_OR_EEPROM_ADDRESS_SIZE
              MLX90614_TEMPERATURE_RESULT_SIZE MLX90614_I2C_TIMEOUT w;
          ret = HAL_ret_handler r
      in if ret \<noteq> MLX90614_EC_OK then Some (ret, w1)
         else
           (let raw_temp = raw_temp_of i2cdata_0 i2cdata_1
            in if raw_temp > 0x7FFF then Some (MLX90614_EC_ERR, w1)
               else
                 (case p_get_mlx90614_converted_temperature drv of
                    None \<Rightarrow> None
                  | Some f \<Rightarrow> Some (MLX90614_EC_OK, w1\<lparr>mem := (mem w1)(dst := f raw_temp)\<rparr>))))"

definition get_mlx90614_object1_temperature ::
  "'b HAL \<Rightarrow> nat \<Rightarrow> driver \<Rightarrow> 'b world \<Rightarrow> (MLX90614_Status \<times> 'b world) option" where
  "get_mlx90614_object1_temperature H dst drv w =
     (let ((r, i2cdata_0, i2cdata_1), w1) =
            call_Mem_Read H (p_hi2c drv) (mlx90614_slave_address_one_bit_left_shifted drv)
              MLX90614_TOBJ1_RAM_ADDRESS MLX90614_RAM_OR_EEPROM_ADDRESS_SIZE
              MLX90614_TEMPERATURE_RESULT_SIZE MLX90614_I2C_TIMEOUT w;
          ret = HAL_ret_handler r
      in if ret \<noteq> MLX90614_EC_OK then Some (ret, w1)
         else
           (let raw_temp = raw_temp_of i2cdata_0 i2cdata_1
            in if raw_temp > 0x7FFF then Some (MLX90614_EC_ERR, w1)
               else
                 (case p_get_mlx90614_converted_temperature drv of
                    None \<Rightarrow> None
                  | Some f \<Rightarrow> Some (MLX90614_EC_OK, w1\<lparr>mem := (mem w1)(dst := f raw_temp)\<rparr>))))"

definition get_mlx90614_object2_temperature ::
  "'b HAL \<Rightarrow> nat \<Rightarrow> driver \<Rightarrow> 'b world \<Rightarrow> (MLX90614_Status \<times> 'b world) option" where
  "get_mlx90614_object2_temperature H dst drv w =
     (let ((r, i2cdata_0, i2cdata_1), w1) =
            call_Mem_Read H (p_hi2c drv) (mlx90614_slave_address_one_bit_left_shifted drv)
              MLX90614_TOBJ2_RAM_ADDRESS MLX90614_RAM_OR_EEPROM_ADDRESS_SIZE
              MLX90614_TEMPERATURE_RESULT_SIZE MLX90614_I2C_TIMEOUT w;
          ret = HAL_ret_handler r
      in if ret \<noteq> MLX90614_EC_OK then Some (ret, w1)
         else
           (let raw_temp = raw_temp_of i2cdata_0 i2cdata_1
            in if raw_temp > 0x7FFF then Some (MLX90614_EC_ERR, w1)
               else
                 (case p_get_mlx90614_converted_temperature drv of
                    None \<Rightarrow> None
                  | Some f \<Rightarrow> Some (MLX90614_EC_OK, w1\<lparr>mem := (mem w1)(dst := f raw_temp)\<rparr>))))"

section \<open>Simulated buses\<close>

text \<open>
  Two concrete transports on which the driver can be run. \<open>device_at k cell\<close> is a bus
  with one device that answers at address \<open>k\<close> only, whose reads return the two bytes
  \<open>cell\<close>, and which acknowledges every transmission without changing anything.
  \<open>scripted\<close> answers the I2C calls, in order, with the responses listed in its state, and
  with \<^verbatim>\<open>HAL_TIMEOUT\<close> once the list is used up.
\<close>

definition device_at :: "uint8_t \<Rightarrow> uint8_t \<times> uint8_t \<Rightarrow> unit HAL" where
  "device_at k cell =
     \<lparr>HAL_I2C_IsDeviceReady = (\<lambda>h a n t b. (if a = push_bit 1 k then HAL_OK else HAL_ERROR, b)),
      HAL_I2C_Mem_Read =
        (\<lambda>h a m ms n t b.
           (if a = push_bit 1 k then (HAL_OK, fst cell, snd cell) else (HAL_ERROR, 0, 0), b)),
      HAL_I2C_Master_Transmit = (\<lambda>h a d n t b. (if a = push_bit 1 k then HAL_OK else HAL_ERROR, b)),
      HAL_Delay = (\<lambda>n b. b)\<rparr>"

fun next_response ::
  "(HAL_StatusTypeDef \<times> uint8_t \<times> uint8_t) list
     \<Rightarrow> (HAL_StatusTypeDef \<times> uint8_t \<times> uint8_t) \<times> (HAL_StatusTypeDef \<times> uint8_t \<times> uint8_t) list" where
  "next_response [] = ((HAL_TIMEOUT, 0, 0), [])"
| "next_response (x # xs) = (x, xs)"

definition scripted :: "(HAL_StatusTypeDef \<times> uint8_t \<times> uint8_t) list HAL" where
  "scripted =
     \<lparr>HAL_I2C_IsDeviceReady = (\<lambda>h a n t b. (fst (fst (next_response b)), snd (next_response b))),
      HAL_I2C_Mem_Read = (\<lambda>h a m ms n t b. next_response b),
      HAL_I2C_Master_Transmit = (\<lambda>h a d n t b. (fst (fst (next_response b)), snd (next_response b))),
      HAL_Delay = (\<lambda>n b. b)\<rparr>"

definition initial_world :: "'b \<Rightarrow> 'b world" where
  "initial_world b = \<lparr>hw = b, trace = [], mem = (\<lambda>p. 0)\<rparr>"

section \<open>Buses with one device, with none, and the probes of a sweep\<close>

text \<open>
  \<open>probe_ready H h c b\<close>: in bus state \<open>b\<close> the transport answers \<^verbatim>\<open>HAL_OK\<close> to the
  readiness probe of address \<open>c\<close> as the driver issues it. \<open>answers_only_at H k\<close>: among the
  addresses from the minimum to the maximum, \<open>k\<close> and no other answers ready, whatever the
  state of the bus; \<open>nobody_answers H\<close>: none of them does. \<open>probe_calls h lo hi\<close> are the
  probes of the addresses \<open>lo\<close>, \<open>lo + 1\<close>, ... below \<open>hi\<close>, in this order.
\<close>

definition probe_ready :: "'b HAL \<Rightarrow> nat \<Rightarrow> uint8_t \<Rightarrow> 'b \<Rightarrow> bool" where
  "probe_ready H h c b =
     (fst (HAL_I2C_IsDeviceReady H h (push_bit 1 c) IS_MLX90614_READY_NUMBER_OF_TRIALS
             MLX90614_I2C_TIMEOUT b) = HAL_OK)"

definition answers_only_at :: "'b HAL \<Rightarrow> uint8_t \<Rightarrow> bool" where
  "answers_only_at H k =
     (\<forall>h b c. MLX90614_MIN_VALID_SLAVE_ADDRESS_VALUE \<le> c \<and> c \<le> MLX90614_MAX_VALID_SLAVE_ADDRESS_VALUE
        \<longrightarrow> probe_ready H h c b = (c = k))"

definition nobody_answers :: "'b HAL \<Rightarrow> bool" where
  "nobody_answers H =
     (\<forall>h b c. MLX90614_MIN_VALID_SLAVE_ADDRESS_VALUE \<le> c \<and> c \<le> MLX90614_MAX_VALID_SLAVE_ADDRESS_VALUE
        \<longrightarrow> \<not> probe_ready H h c b)"

definition probe_calls :: "nat \<Rightarrow> nat \<Rightarrow> nat \<Rightarrow> HAL_call list" where
  "probe_calls h lo hi =
     map (\<lambda>n. Call_IsDeviceReady h (push_bit 1 (of_nat n)) IS_MLX90614_READY_NUMBER_OF_TRIALS
                 MLX90614_I2C_TIMEOUT) [lo..<hi]"

section \<open>The driver after a default initialisation\<close>

text \<open>
  The globals after \<^verbatim>\<open>init_mlx90614_module(hi2c, 0, MLX90614_Temp_C)\<close> with handle 1 from
  the initial state: the factory address 0x5A, its shifted form 0xB4, Celsius readings.
\<close>

definition default_driver :: driver where
  "default_driver =
     \<lparr>p_hi2c = 1, mlx90614_slave_address = 0x5A,
      mlx90614_slave_address_one_bit_left_shifted = 0xB4,
      mlx90614_temperature_type = MLX90614_Temp_C,
      p_get_mlx90614_converted_temperature = Some get_mlx90614_converted_temperature_in_celsius\<rparr>"

section \<open>Properties of the PEC byte\<close>

lemmas mlx_consts =
  MLX90614_I2C_TIMEOUT_def MLX90614_ERASE_OR_WRITE_CELL_TIME_def
  IS_MLX90614_READY_NUMBER_OF_TRIALS_def MLX90614_RAM_OR_EEPROM_ADDRESS_SIZE_def
  MLX90614_TA_RAM_ADDRESS_def MLX90614_TOBJ1_RAM_ADDRESS_def MLX90614_TOBJ2_RAM_ADDRESS_def
  MLX90614_TEMPERATURE_RESULT_SIZE_def MLX90614_EEPROM_SLAVE_ADDRESS_SIZE_def
  MLX90614_I2C_WRITE_COMMAND_SIZE_def MLX90614_SLAVE_ADDRESS_EEPROM_ADDRESS_def
  MLX90614_PEC_RESET_VALUE_def MLX90614_SLAVE_ADDRESS_EEPROM_ERASE_VALUE_def
  MLX90614_MAX_VALID_SLAVE_ADDRESS_VALUE_def MLX90614_MAX_VALID_SLAVE_ADDRESS_VALUE_PLUS_ONE_def
  MLX90614_MIN_VALID_SLAVE_ADDRESS_VALUE_def
  MLX90614_Temp_K_def MLX90614_Temp_C_def MLX90614_Temp_F_def


lemma bit_check_iff: "(data AND 0x80 \<noteq> 0) = bit data 7" for data :: uint8_t
proof -
  have "(data AND 2 ^ 7 = 0) = (\<not> bit data 7)"
    by (rule and_exp_eq_0_iff_not_bit)
  then show ?thesis by simp
qed

lemma calculate_pec_loop_step:
  "i < 8 \<Longrightarrow> calculate_pec_loop i data = calculate_pec_loop (Suc i) (crc8_shift data)"
  by (subst calculate_pec_loop.simps) (simp add: Let_def crc8_shift_def bit_check_iff)

lemma calculate_pec_loop_end: "calculate_pec_loop 8 data = data"
  by (subst calculate_pec_loop.simps) simp

lemma calculate_pec_loop_funpow:
  "i \<le> 8 \<Longrightarrow> calculate_pec_loop i data = (crc8_shift ^^ (8 - i)) data"
proof (induction "8 - i" arbitrary: i data)
  case 0
  then have "i = 8" by simp
  then show ?case by (simp add: calculate_pec_loop_end)
next
  case (Suc n)
  then have lt: "i < 8" and n: "n = 8 - Suc i" by simp_all
  have "calculate_pec_loop i data = calculate_pec_loop (Suc i) (crc8_shift data)"
    using lt by (rule calculate_pec_loop_step)
  also have "\<dots> = (crc8_shift ^^ (8 - Suc i)) (crc8_shift data)"
    using Suc.hyps(1) [OF n] lt by simp
  also have "\<dots> = (crc8_shift ^^ Suc (8 - Suc i)) data"
    by (simp only: funpow_Suc_right o_apply)
  also have "Suc (8 - Suc i) = 8 - i"
    using lt by simp
  finally show ?case .
qed

lemma calculate_pec_crc8_byte: "calculate_pec acc b = crc8_byte acc b"
  by (simp add: calculate_pec_def crc8_byte_def calculate_pec_loop_funpow)

lemma foldl_calculate_pec: "foldl calculate_pec acc bs = foldl crc8_byte acc bs"
  by (induction bs arbitrary: acc) (simp_all add: calculate_pec_crc8_byte)

text \<open>
  The standard check value of CRC-8 with polynomial 0x07, zero initial value and no final
  XOR: the ASCII digits \<open>123456789\<close> give 0xF4.
\<close>

lemma calculate_pec_check_value:
  "foldl calculate_pec MLX90614_PEC_RESET_VALUE
     [0x31, 0x32, 0x33, 0x34, 0x35, 0x36, 0x37, 0x38, 0x39] = 0xF4"
  by code_simp

text \<open>
  C1. The PEC byte is the CRC-8 of the specification: folding \<^verbatim>\<open>calculate_pec\<close> over any
  byte sequence from the reset value gives \<open>crc8_spec\<close> of the sequence, and the fourth byte
  of the erase command and of the write command is \<open>crc8_spec\<close> of the wire address byte, the
  EEPROM address byte and the two payload bytes, in that order.
\<close>

theorem pec_is_crc8:
  "foldl calculate_pec MLX90614_PEC_RESET_VALUE bs = crc8_spec bs
   \<and> erase_command wire = [0x2E, 0, 0, crc8_spec [wire, 0x2E, 0, 0]]
   \<and> write_command wire (erase_command wire) a hi = [0x2E, a, hi, crc8_spec [wire, 0x2E, a, hi]]"
  by (simp add: erase_command_def write_command_def crc8_spec_def foldl_calculate_pec
      calculate_pec_crc8_byte mlx_consts Let_def)

section \<open>Properties of the status mapping\<close>

lemma HAL_ret_handler_OK_iff: "(HAL_ret_handler r = MLX90614_EC_OK) = (r = HAL_OK)"
  by (cases r) simp_all

section \<open>Properties of the believed address\<close>

text \<open>
  C4. \<^verbatim>\<open>set_mlx90614_module_slave_address\<close> is atomic with respect to failure: an address
  above the maximum or below the minimum gives \<^verbatim>\<open>MLX90614_EC_ERR\<close> with the driver and the
  world untouched (no probe); an address in range whose probe is not \<^verbatim>\<open>HAL_OK\<close> gives
  \<^verbatim>\<open>MLX90614_EC_NR\<close> with the driver's globals unchanged; and a successful probe gives
  \<^verbatim>\<open>MLX90614_EC_OK\<close> with the address and its shifted form overwritten.
\<close>

theorem set_believed_address_atomic:
  fixes H :: "'b HAL"
  shows
  "(a > MLX90614_MAX_VALID_SLAVE_ADDRESS_VALUE \<or> a < MLX90614_MIN_VALID_SLAVE_ADDRESS_VALUE \<longrightarrow>
      set_mlx90614_module_slave_address H a drv w = (MLX90614_EC_ERR, drv, w))
   \<and> (MLX90614_MIN_VALID_SLAVE_ADDRESS_VALUE \<le> a \<and> a \<le> MLX90614_MAX_VALID_SLAVE_ADDRESS_VALUE
        \<and> fst (HAL_I2C_IsDeviceReady H (p_hi2c drv) (push_bit 1 a)
                 IS_MLX90614_READY_NUMBER_OF_TRIALS MLX90614_I2C_TIMEOUT (hw w)) \<noteq> HAL_OK \<longrightarrow>
      fst (set_mlx90614_module_slave_address H a drv w) = MLX90614_EC_NR
      \<and> fst (snd (set_mlx90614_module_slave_address H a drv w)) = drv)
   \<and> (MLX90614_MIN_VALID_SLAVE_ADDRESS_VALUE \<le> a \<and> a \<le> MLX90614_MAX_VALID_SLAVE_ADDRESS_VALUE
        \<and> fst (HAL_I2C_IsDeviceReady H (p_hi2c drv) (push_bit 1 a)
                 IS_MLX90614_READY_NUMBER_OF_TRIALS MLX90614_I2C_TIMEOUT (hw w)) = HAL_OK \<longrightarrow>
      fst (set_mlx90614_module_slave_address H a drv w) = MLX90614_EC_OK
      \<and> fst (snd (set_mlx90614_module_slave_address H a drv w)) =
          drv\<lparr>mlx90614_slave_address := a,
              mlx90614_slave_address_one_bit_left_shifted := push_bit 1 a\<rparr>)"
proof (intro conjI impI)
  assume "a > MLX90614_MAX_VALID_SLAVE_ADDRESS_VALUE \<or> a < MLX90614_MIN_VALID_SLAVE_ADDRESS_VALUE"
  then show "set_mlx90614_module_slave_address H a drv w = (MLX90614_EC_ERR, drv, w)"
    by (simp add: set_mlx90614_module_slave_address_def)
next
  assume h: "MLX90614_MIN_VALID_SLAVE_ADDRESS_VALUE \<le> a \<and> a \<le> MLX90614_MAX_VALID_SLAVE_ADDRESS_VALUE
        \<and> fst (HAL_I2C_IsDeviceReady H (p_hi2c drv) (push_bit 1 a)
                 IS_MLX90614_READY_NUMBER_OF_TRIALS MLX90614_I2C_TIMEOUT (hw w)) \<noteq> HAL_OK"
  then have rng: "\<not> (a > MLX90614_MAX_VALID_SLAVE_ADDRESS_VALUE \<or> a < MLX90614_MIN_VALID_SLAVE_ADDRESS_VALUE)"
    by (simp add: not_less)
  show "fst (set_mlx90614_module_slave_address H a drv w) = MLX90614_EC_NR"
    using h rng by (auto simp: set_mlx90614_module_slave_address_def call_IsDeviceReady_def
        Let_def split: prod.splits)
  show "fst (snd (set_mlx90614_module_slave_address H a drv w)) = drv"
    using h rng by (auto simp: set_mlx90614_module_slave_address_def call_IsDeviceReady_def
        Let_def split: prod.splits)
next
  assume h: "MLX90614_MIN_VALID_SLAVE_ADDRESS_VALUE \<le> a \<and> a \<le> MLX90614_MAX_VALID_SLAVE_ADDRESS_VALUE
        \<and> fst (HAL_I2C_IsDeviceReady H (p_hi2c drv) (push_bit 1 a)
                 IS_MLX90614_READY_NUMBER_OF_TRIALS MLX90614_I2C_TIMEOUT (hw w)) = HAL_OK"
  then have rng: "\<not> (a > MLX90614_MAX_VALID_SLAVE_ADDRESS_VALUE \<or> a < MLX90614_MIN_VALID_SLAVE_ADDRESS_VALUE)"
    by (simp add: not_less)
  show "fst (set_mlx90614_module_slave_address H a drv w) = MLX90614_EC_OK"
    using h rng by (auto simp: set_mlx90614_module_slave_address_def call_IsDeviceReady_def
        Let_def split: prod.splits)
  show "fst (snd (set_mlx90614_module_slave_address H a drv w)) =
          drv\<lparr>mlx90614_slave_address := a,
              mlx90614_slave_address_one_bit_left_shifted := push_bit 1 a\<rparr>"
    using h rng by (auto simp: set_mlx90614_module_slave_address_def call_IsDeviceReady_def
        Let_def split: prod.splits)
qed

theorem set_believed_address_atomic_witness:
  "set_mlx90614_module_slave_address (device_at 0x5A (0, 0)) 0x02 initial_driver (initial_world ())
     = (MLX90614_EC_ERR, initial_driver, initial_world ())
   \<and> set_mlx90614_module_slave_address (device_at 0x5A (0, 0)) 0x7F initial_driver (initial_world ())
     = (MLX90614_EC_ERR, initial_driver, initial_world ())
   \<and> fst (set_mlx90614_module_slave_address (device_at 0x5A (0, 0)) 0x10 initial_driver (initial_world ()))
     = MLX90614_EC_NR
   \<and> fst (snd (set_mlx90614_module_slave_address (device_at 0x5A (0, 0)) 0x10 initial_driver
        (initial_world ()))) = initial_driver
   \<and> fst (set_mlx90614_module_slave_address (device_at 0x10 (0, 0)) 0x10 initial_driver (initial_world ()))
     = MLX90614_EC_OK
   \<and> fst (snd (set_mlx90614_module_slave_address (device_at 0x10 (0, 0)) 0x10 initial_driver
        (initial_world ()))) =
       initial_driver\<lparr>mlx90614_slave_address := 0x10,
                      mlx90614_slave_address_one_bit_left_shifted := 0x20\<rparr>"
  using set_believed_address_atomic [where H = "device_at 0x5A (0, 0)" and a = "0x02" and drv = initial_driver and w = "initial_world ()"]
    set_believed_address_atomic [where H = "device_at 0x5A (0, 0)" and a = "0x7F" and drv = initial_driver and w = "initial_world ()"]
    set_believed_address_atomic [where H = "device_at 0x5A (0, 0)" and a = "0x10" and drv = initial_driver and w = "initial_world ()"]
    set_believed_address_atomic [where H = "device_at 0x10 (0, 0)" and a = "0x10" and drv = initial_driver and w = "initial_world ()"]
  by (simp add: mlx_consts device_at_def initial_world_def)

section \<open>Properties of the address sweep\<close>

lemma probe_calls_Cons:
  "lo < hi \<Longrightarrow> probe_calls h lo hi =
     Call_IsDeviceReady h (push_bit 1 (of_nat lo)) IS_MLX90614_READY_NUMBER_OF_TRIALS
       MLX90614_I2C_TIMEOUT # probe_calls h (Suc lo) hi"
  by (simp add: probe_calls_def upt_conv_Cons)

lemma probe_calls_empty: "probe_calls h lo lo = []"
  by (simp add: probe_calls_def)

lemma unat_succ_below: "unat c < 127 \<Longrightarrow> unat (c + 1) = Suc (unat c)" for c :: uint8_t
  by (simp add: unat_word_ariths)

lemma find_loop_ready:
  assumes "c < MLX90614_MAX_VALID_SLAVE_ADDRESS_VALUE_PLUS_ONE"
    and "probe_ready H (p_hi2c drv) c (hw w)"
  shows "find_loop H c drv w =
     (MLX90614_EC_OK,
      drv\<lparr>mlx90614_slave_address := c, mlx90614_slave_address_one_bit_left_shifted := push_bit 1 c\<rparr>,
      w\<lparr>hw := snd (HAL_I2C_IsDeviceReady H (p_hi2c drv) (push_bit 1 c)
                     IS_MLX90614_READY_NUMBER_OF_TRIALS MLX90614_I2C_TIMEOUT (hw w)),
        trace := trace w @ [Call_IsDeviceReady (p_hi2c drv) (push_bit 1 c)
                     IS_MLX90614_READY_NUMBER_OF_TRIALS MLX90614_I2C_TIMEOUT]\<rparr>)"
  using assms
  by (subst find_loop.simps)
     (auto simp: probe_ready_def call_IsDeviceReady_def Let_def split: prod.splits)

lemma find_loop_not_ready:
  assumes "c < MLX90614_MAX_VALID_SLAVE_ADDRESS_VALUE_PLUS_ONE"
    and "\<not> probe_ready H (p_hi2c drv) c (hw w)"
  shows "find_loop H c drv w =
     find_loop H (c + 1) drv
       (w\<lparr>hw := snd (HAL_I2C_IsDeviceReady H (p_hi2c drv) (push_bit 1 c)
                     IS_MLX90614_READY_NUMBER_OF_TRIALS MLX90614_I2C_TIMEOUT (hw w)),
          trace := trace w @ [Call_IsDeviceReady (p_hi2c drv) (push_bit 1 c)
                     IS_MLX90614_READY_NUMBER_OF_TRIALS MLX90614_I2C_TIMEOUT]\<rparr>)"
  using assms
  by (subst find_loop.simps)
     (auto simp: probe_ready_def call_IsDeviceReady_def Let_def split: prod.splits)

lemma find_loop_done:
  "\<not> c < MLX90614_MAX_VALID_SLAVE_ADDRESS_VALUE_PLUS_ONE \<Longrightarrow>
   find_loop H c drv w = (MLX90614_EC_NR, drv, w)"
  by (subst find_loop.simps) simp

lemma find_loop_first:
  assumes "unat c \<le> unat k" and "unat k \<le> 126"
    and "\<forall>c' b. unat c \<le> unat c' \<and> unat c' < unat k \<longrightarrow> \<not> probe_ready H (p_hi2c drv) c' b"
    and "\<forall>b. probe_ready H (p_hi2c drv) k b"
  shows "fst (find_loop H c drv w) = MLX90614_EC_OK
     \<and> fst (snd (find_loop H c drv w)) =
         drv\<lparr>mlx90614_slave_address := k, mlx90614_slave_address_one_bit_left_shifted := push_bit 1 k\<rparr>
     \<and> trace (snd (snd (find_loop H c drv w))) =
         trace w @ probe_calls (p_hi2c drv) (unat c) (Suc (unat k))
     \<and> mem (snd (snd (find_loop H c drv w))) = mem w"
  using assms
proof (induction "unat k - unat c" arbitrary: c w)
  case 0
  then have ck: "c = k" by (simp add: word_unat_eq_iff)
  have lt: "k < MLX90614_MAX_VALID_SLAVE_ADDRESS_VALUE_PLUS_ONE"
    using "0.prems"(2) by (simp add: MLX90614_MAX_VALID_SLAVE_ADDRESS_VALUE_PLUS_ONE_def word_less_nat_alt)
  have rdy: "probe_ready H (p_hi2c drv) k (hw w)" using "0.prems"(4) by simp
  show ?case
    unfolding ck find_loop_ready [OF lt rdy]
    by (simp add: probe_calls_Cons probe_calls_empty)
next
  case (Suc n)
  then have clt: "unat c < unat k" by simp
  then have c127: "unat c < 127" using Suc.prems(2) by simp
  have lt: "c < MLX90614_MAX_VALID_SLAVE_ADDRESS_VALUE_PLUS_ONE"
    using c127 by (simp add: MLX90614_MAX_VALID_SLAVE_ADDRESS_VALUE_PLUS_ONE_def word_less_nat_alt)
  have nrdy: "\<not> probe_ready H (p_hi2c drv) c (hw w)"
    using Suc.prems(3) clt by simp
  have su: "unat (c + 1) = Suc (unat c)" using c127 by (rule unat_succ_below)
  let ?w1 = "w\<lparr>hw := snd (HAL_I2C_IsDeviceReady H (p_hi2c drv) (push_bit 1 c)
                     IS_MLX90614_READY_NUMBER_OF_TRIALS MLX90614_I2C_TIMEOUT (hw w)),
          trace := trace w @ [Call_IsDeviceReady (p_hi2c drv) (push_bit 1 c)
                     IS_MLX90614_READY_NUMBER_OF_TRIALS MLX90614_I2C_TIMEOUT]\<rparr>"
  have n: "n = unat k - unat (c + 1)" using Suc.hyps(2) su by simp
  have p1: "unat (c + 1) \<le> unat k" using clt su by simp
  have p3: "\<forall>c' b. unat (c + 1) \<le> unat c' \<and> unat c' < unat k \<longrightarrow> \<not> probe_ready H (p_hi2c drv) c' b"
    using Suc.prems(3) su by simp
  have IH: "fst (find_loop H (c + 1) drv ?w1) = MLX90614_EC_OK
     \<and> fst (snd (find_loop H (c + 1) drv ?w1)) =
         drv\<lparr>mlx90614_slave_address := k, mlx90614_slave_address_one_bit_left_shifted := push_bit 1 k\<rparr>
     \<and> trace (snd (snd (find_loop H (c + 1) drv ?w1))) =
         trace ?w1 @ probe_calls (p_hi2c drv) (unat (c + 1)) (Suc (unat k))
     \<and> mem (snd (snd (find_loop H (c + 1) drv ?w1))) = mem ?w1"
    by (rule Suc.hyps(1) [OF n p1 Suc.prems(2) p3 Suc.prems(4)])
  have pc: "probe_calls (p_hi2c drv) (unat c) (Suc (unat k)) =
      Call_IsDeviceReady (p_hi2c drv) (push_bit 1 c) IS_MLX90614_READY_NUMBER_OF_TRIALS
        MLX90614_I2C_TIMEOUT # probe_calls (p_hi2c drv) (unat (c + 1)) (Suc (unat k))"
    using clt by (simp add: probe_calls_Cons su)
  show ?case
    unfolding find_loop_not_ready [OF lt nrdy] using IH by (simp add: pc)
qed

lemma find_loop_none:
  assumes "unat c \<le> 127"
    and "\<forall>c' b. unat c \<le> unat c' \<and> unat c' \<le> 126 \<longrightarrow> \<not> probe_ready H (p_hi2c drv) c' b"
  shows "fst (find_loop H c drv w) = MLX90614_EC_NR
     \<and> fst (snd (find_loop H c drv w)) = drv
     \<and> trace (snd (snd (find_loop H c drv w))) = trace w @ probe_calls (p_hi2c drv) (unat c) 127
     \<and> mem (snd (snd (find_loop H c drv w))) = mem w"
  using assms
proof (induction "127 - unat c" arbitrary: c w)
  case 0
  then have c: "unat c = 127" by simp
  then have "\<not> c < MLX90614_MAX_VALID_SLAVE_ADDRESS_VALUE_PLUS_ONE"
    by (simp add: MLX90614_MAX_VALID_SLAVE_ADDRESS_VALUE_PLUS_ONE_def word_less_nat_alt)
  then show ?case by (simp add: find_loop_done c probe_calls_empty)
next
  case (Suc n)
  then have c127: "unat c < 127" by simp
  have lt: "c < MLX90614_MAX_VALID_SLAVE_ADDRESS_VALUE_PLUS_ONE"
    using c127 by (simp add: MLX90614_MAX_VALID_SLAVE_ADDRESS_VALUE_PLUS_ONE_def word_less_nat_alt)
  have nrdy: "\<not> probe_ready H (p_hi2c drv) c (hw w)"
    using Suc.prems(2) c127 by simp
  have su: "unat (c + 1) = Suc (unat c)" using c127 by (rule unat_succ_below)
  let ?w1 = "w\<lparr>hw := snd (HAL_I2C_IsDeviceReady H (p_hi2c drv) (push_bit 1 c)
                     IS_MLX90614_READY_NUMBER_OF_TRIALS MLX90614_I2C_TIMEOUT (hw w)),
          trace := trace w @ [Call_IsDeviceReady (p_hi2c drv) (push_bit 1 c)
                     IS_MLX90614_READY_NUMBER_OF_TRIALS MLX90614_I2C_TIMEOUT]\<rparr>"
  have n: "n = 127 - unat (c + 1)" using Suc.hyps(2) su by simp
  have p1: "unat (c + 1) \<le> 127" using c127 su by simp
  have p2: "\<forall>c' b. unat (c + 1) \<le> unat c' \<and> unat c' \<le> 126 \<longrightarrow> \<not> probe_ready H (p_hi2c drv) c' b"
    using Suc.prems(2) su by simp
  have IH: "fst (find_loop H (c + 1) drv ?w1) = MLX90614_EC_NR
     \<and> fst (snd (find_loop H (c + 1) drv ?w1)) = drv
     \<and> trace (snd (snd (find_loop H (c + 1) drv ?w1))) =
         trace ?w1 @ probe_calls (p_hi2c drv) (unat (c + 1)) 127
     \<and> mem (snd (snd (find_loop H (c + 1) drv ?w1))) = mem ?w1"
    by (rule Suc.hyps(1) [OF n p1 p2])
  have pc: "probe_calls (p_hi2c drv) (unat c) 127 =
      Call_IsDeviceReady (p_hi2c drv) (push_bit 1 c) IS_MLX90614_READY_NUMBER_OF_TRIALS
        MLX90614_I2C_TIMEOUT # probe_calls (p_hi2c drv) (unat (c + 1)) 127"
    using c127 by (simp add: probe_calls_Cons su)
  show ?case
    unfolding find_loop_not_ready [OF lt nrdy] using IH by (simp add: pc)
qed

lemma unat_push_bit_1: "unat c \<le> 126 \<Longrightarrow> unat (push_bit 1 c) = 2 * unat c" for c :: uint8_t
  by (simp add: unat_word_ariths)

lemma push_bit_1_eq_iff:
  "unat c \<le> 126 \<Longrightarrow> unat k \<le> 126 \<Longrightarrow> (push_bit 1 c = push_bit 1 k) = (c = k)"
  for c k :: uint8_t
proof
  assume b: "unat c \<le> 126" "unat k \<le> 126" and "push_bit 1 c = push_bit 1 k"
  then have "unat (push_bit 1 c) = unat (push_bit 1 k)" by simp
  then have "unat c = unat k" using b by (simp only: unat_push_bit_1)
  then show "c = k" by (simp add: word_unat_eq_iff)
qed simp

lemma double_eq_iff:
  "unat c \<le> 126 \<Longrightarrow> unat k \<le> 126 \<Longrightarrow> (c * 2 = k * 2) = (c = k)" for c k :: uint8_t
  using push_bit_1_eq_iff [of c k] by (simp add: push_bit_eq_mult)

lemma device_at_answers_only_at: "unat k \<le> 126 \<Longrightarrow> answers_only_at (device_at k cell) k"
  by (auto simp: answers_only_at_def probe_ready_def device_at_def mlx_consts word_le_nat_alt
      double_eq_iff)

lemma device_at_0_nobody_answers: "nobody_answers (device_at 0 cell)"
proof -
  have "c * 2 \<noteq> 0" if "3 \<le> unat c" "unat c \<le> 126" for c :: uint8_t
  proof -
    have "c \<noteq> 0" using that by auto
    then show ?thesis using that double_eq_iff [of c 0] by simp
  qed
  then show ?thesis
    by (auto simp: nobody_answers_def probe_ready_def device_at_def mlx_consts word_le_nat_alt)
qed

text \<open>
  C3. \<^verbatim>\<open>find_mlx90614_slave_address\<close> probes the addresses from the minimum (3) upwards and
  stops at the first that answers ready. On a bus where, among the addresses from 3 to 0x7E,
  \<open>k\<close> and no other answers ready, it returns \<^verbatim>\<open>MLX90614_EC_OK\<close>, the believed address is
  \<open>k\<close> (and the shifted form \<open>k << 1\<close>), and the probes issued are those of 3, 4, ..., \<open>k\<close>
  in this order; address 0 is never probed. On a bus where none of them answers it returns
  \<^verbatim>\<open>MLX90614_EC_NR\<close> (the driver's status for "not found"), the globals are unchanged, and
  the probes issued are those of 3, ..., 0x7E.
\<close>

theorem discover_first_ready:
  fixes H :: "'b HAL"
  shows
  "(MLX90614_MIN_VALID_SLAVE_ADDRESS_VALUE \<le> k \<and> k \<le> MLX90614_MAX_VALID_SLAVE_ADDRESS_VALUE
      \<and> answers_only_at H k \<longrightarrow>
      fst (find_mlx90614_slave_address H drv w) = MLX90614_EC_OK
      \<and> fst (snd (find_mlx90614_slave_address H drv w)) =
          drv\<lparr>mlx90614_slave_address := k, mlx90614_slave_address_one_bit_left_shifted := push_bit 1 k\<rparr>
      \<and> trace (snd (snd (find_mlx90614_slave_address H drv w))) =
          trace w @ probe_calls (p_hi2c drv) 3 (Suc (unat k)))
   \<and> (nobody_answers H \<longrightarrow>
      fst (find_mlx90614_slave_address H drv w) = MLX90614_EC_NR
      \<and> fst (snd (find_mlx90614_slave_address H drv w)) = drv
      \<and> trace (snd (snd (find_mlx90614_slave_address H drv w))) =
          trace w @ probe_calls (p_hi2c drv) 3 127)"
proof (intro conjI impI)
  assume h: "MLX90614_MIN_VALID_SLAVE_ADDRESS_VALUE \<le> k \<and> k \<le> MLX90614_MAX_VALID_SLAVE_ADDRESS_VALUE
      \<and> answers_only_at H k"
  have k3: "unat (3 :: uint8_t) \<le> unat k" and k126: "unat k \<le> 126"
    using h by (simp_all add: mlx_consts word_le_nat_alt)
  have before: "\<forall>c' b. unat (3 :: uint8_t) \<le> unat c' \<and> unat c' < unat k
      \<longrightarrow> \<not> probe_ready H (p_hi2c drv) c' b"
  proof (intro allI impI)
    fix c' :: uint8_t and b
    assume a: "unat (3 :: uint8_t) \<le> unat c' \<and> unat c' < unat k"
    then have "MLX90614_MIN_VALID_SLAVE_ADDRESS_VALUE \<le> c' \<and> c' \<le> MLX90614_MAX_VALID_SLAVE_ADDRESS_VALUE"
      using k126 by (simp add: mlx_consts word_le_nat_alt)
    moreover have "c' \<noteq> k" using a by auto
    ultimately show "\<not> probe_ready H (p_hi2c drv) c' b"
      using h by (simp add: answers_only_at_def)
  qed
  have at: "\<forall>b. probe_ready H (p_hi2c drv) k b"
    using h by (simp add: answers_only_at_def)
  note r = find_loop_first [OF k3 k126 before at, of w]
  show "fst (find_mlx90614_slave_address H drv w) = MLX90614_EC_OK"
    using r by (simp add: find_mlx90614_slave_address_def mlx_consts)
  show "fst (snd (find_mlx90614_slave_address H drv w)) =
          drv\<lparr>mlx90614_slave_address := k, mlx90614_slave_address_one_bit_left_shifted := push_bit 1 k\<rparr>"
    using r by (simp add: find_mlx90614_slave_address_def mlx_consts)
  show "trace (snd (snd (find_mlx90614_slave_address H drv w))) =
          trace w @ probe_calls (p_hi2c drv) 3 (Suc (unat k))"
    using r by (simp add: find_mlx90614_slave_address_def mlx_consts)
next
  assume h: "nobody_answers H"
  have none: "\<forall>c' b. unat (3 :: uint8_t) \<le> unat c' \<and> unat c' \<le> 126
      \<longrightarrow> \<not> probe_ready H (p_hi2c drv) c' b"
  proof (intro allI impI)
    fix c' :: uint8_t and b
    assume a: "unat (3 :: uint8_t) \<le> unat c' \<and> unat c' \<le> 126"
    then have "MLX90614_MIN_VALID_SLAVE_ADDRESS_VALUE \<le> c' \<and> c' \<le> MLX90614_MAX_VALID_SLAVE_ADDRESS_VALUE"
      by (simp add: mlx_consts word_le_nat_alt)
    then show "\<not> probe_ready H (p_hi2c drv) c' b"
      using h by (simp add: nobody_answers_def)
  qed
  have le: "unat (3 :: uint8_t) \<le> 127" by simp
  note r = find_loop_none [OF le none, of w]
  show "fst (find_mlx90614_slave_address H drv w) = MLX90614_EC_NR"
    using r by (simp add: find_mlx90614_slave_address_def mlx_consts)
  show "fst (snd (find_mlx90614_slave_address H drv w)) = drv"
    using r by (simp add: find_mlx90614_slave_address_def mlx_consts)
  show "trace (snd (snd (find_mlx90614_slave_address H drv w))) =
          trace w @ probe_calls (p_hi2c drv) 3 127"
    using r by (simp add: find_mlx90614_slave_address_def mlx_consts)
qed

theorem discover_first_ready_witness:
  "fst (find_mlx90614_slave_address (device_at 5 (0, 0)) initial_driver (initial_world ())) = MLX90614_EC_OK
   \<and> mlx90614_slave_address
       (fst (snd (find_mlx90614_slave_address (device_at 5 (0, 0)) initial_driver (initial_world ())))) = 5
   \<and> trace (snd (snd (find_mlx90614_slave_address (device_at 5 (0, 0)) initial_driver (initial_world ()))))
       = [Call_IsDeviceReady 0 6 1 100, Call_IsDeviceReady 0 8 1 100, Call_IsDeviceReady 0 10 1 100]
   \<and> fst (find_mlx90614_slave_address (device_at 0 (0, 0)) initial_driver (initial_world ())) = MLX90614_EC_NR
   \<and> fst (snd (find_mlx90614_slave_address (device_at 0 (0, 0)) initial_driver (initial_world ())))
       = initial_driver"
proof -
  have a: "answers_only_at (device_at 5 (0, 0)) 5"
    by (rule device_at_answers_only_at) simp
  have n: "nobody_answers (device_at 0 (0, 0))"
    by (rule device_at_0_nobody_answers)
  have u: "[3..<6] = [3, 4, 5::nat]"
    by (simp add: upt_rec)
  show ?thesis
    using discover_first_ready [where H = "device_at 5 (0, 0)" and k = 5 and drv = initial_driver
        and w = "initial_world ()"]
      discover_first_ready [where H = "device_at 0 (0, 0)" and k = 5 and drv = initial_driver
        and w = "initial_world ()"] a n
    by (simp add: mlx_consts initial_world_def initial_driver_def probe_calls_def u)
qed

section \<open>Properties of the initialisation\<close>

lemma init_default_driver:
  "init_mlx90614_module H 1 0 MLX90614_Temp_C initial_driver w = (MLX90614_EC_OK, default_driver, w)"
  by (simp add: init_mlx90614_module_def switch_temp_t_def initial_driver_def default_driver_def
      mlx_consts Let_def)

text \<open>
  What \<^verbatim>\<open>init_mlx90614_module\<close> does with the address: above the maximum it returns
  \<^verbatim>\<open>MLX90614_EC_ERR\<close> and touches nothing; with 0 it keeps the believed address and issues no
  probe; with any other address not above the maximum, a probe that is not \<^verbatim>\<open>HAL_OK\<close>
  gives \<^verbatim>\<open>MLX90614_EC_NR\<close> and the globals stay as they were.
\<close>

lemma init_address_validation:
  fixes H :: "'b HAL"
  shows
  "(a > MLX90614_MAX_VALID_SLAVE_ADDRESS_VALUE \<longrightarrow>
      init_mlx90614_module H hi2c a temp_t drv w = (MLX90614_EC_ERR, drv, w))
   \<and> (mlx90614_slave_address (fst (snd (init_mlx90614_module H hi2c 0 temp_t drv w)))
        = mlx90614_slave_address drv
      \<and> snd (snd (init_mlx90614_module H hi2c 0 temp_t drv w)) = w)
   \<and> (a \<noteq> 0 \<and> a \<le> MLX90614_MAX_VALID_SLAVE_ADDRESS_VALUE
        \<and> fst (HAL_I2C_IsDeviceReady H (p_hi2c drv) (push_bit 1 a)
                 IS_MLX90614_READY_NUMBER_OF_TRIALS MLX90614_I2C_TIMEOUT (hw w)) \<noteq> HAL_OK \<longrightarrow>
      fst (init_mlx90614_module H hi2c a temp_t drv w) = MLX90614_EC_NR
      \<and> fst (snd (init_mlx90614_module H hi2c a temp_t drv w)) = drv)"
  by (auto simp: init_mlx90614_module_def switch_temp_t_def call_IsDeviceReady_def Let_def
      mlx_consts not_less split: prod.splits)

text \<open>
  C6. \<^verbatim>\<open>init_mlx90614_module\<close> compares the address with the maximum only. Addresses 1 and
  2 are below \<^verbatim>\<open>MLX90614_MIN_VALID_SLAVE_ADDRESS_VALUE\<close>, and the sibling
  \<^verbatim>\<open>set_mlx90614_module_slave_address\<close> rejects them, yet initialisation with address 1 on
  a bus where a device answers there probes the bus, succeeds and believes address 1, and
  initialisation with address 2 on a bus with no device there probes the bus and returns
  \<^verbatim>\<open>MLX90614_EC_NR\<close>, not \<^verbatim>\<open>MLX90614_EC_ERR\<close>.
\<close>

theorem init_accepts_address_below_minimum:
  "fst (init_mlx90614_module (device_at 1 (0, 0)) 1 1 MLX90614_Temp_C initial_driver (initial_world ()))
     = MLX90614_EC_OK
   \<and> mlx90614_slave_address
       (fst (snd (init_mlx90614_module (device_at 1 (0, 0)) 1 1 MLX90614_Temp_C initial_driver
          (initial_world ())))) = 1
   \<and> trace (snd (snd (init_mlx90614_module (device_at 1 (0, 0)) 1 1 MLX90614_Temp_C initial_driver
          (initial_world ())))) = [Call_IsDeviceReady 0 2 1 100]
   \<and> fst (init_mlx90614_module (device_at 0x5A (0, 0)) 1 2 MLX90614_Temp_C initial_driver (initial_world ()))
     = MLX90614_EC_NR
   \<and> trace (snd (snd (init_mlx90614_module (device_at 0x5A (0, 0)) 1 2 MLX90614_Temp_C initial_driver
          (initial_world ())))) = [Call_IsDeviceReady 0 4 1 100]
   \<and> (1 :: uint8_t) < MLX90614_MIN_VALID_SLAVE_ADDRESS_VALUE
   \<and> (2 :: uint8_t) < MLX90614_MIN_VALID_SLAVE_ADDRESS_VALUE
   \<and> set_mlx90614_module_slave_address (device_at 1 (0, 0)) 1 initial_driver (initial_world ())
     = (MLX90614_EC_ERR, initial_driver, initial_world ())"
  by (simp add: init_mlx90614_module_def set_mlx90614_module_slave_address_def switch_temp_t_def
      device_at_def initial_driver_def initial_world_def mlx_consts call_IsDeviceReady_def Let_def)

text \<open>
  C10. \<^verbatim>\<open>init_mlx90614_module\<close> is not atomic with respect to failure: with a non-zero
  address not above the maximum whose probe succeeds and a temperature type that is none of
  the three known ones, it returns \<^verbatim>\<open>MLX90614_EC_ERR\<close> with the believed address, its
  shifted form and the bus handle already overwritten.
\<close>

theorem init_not_atomic:
  fixes H :: "'b HAL"
  assumes "a \<noteq> 0" and "a \<le> MLX90614_MAX_VALID_SLAVE_ADDRESS_VALUE"
    and "fst (HAL_I2C_IsDeviceReady H (p_hi2c drv) (push_bit 1 a)
                 IS_MLX90614_READY_NUMBER_OF_TRIALS MLX90614_I2C_TIMEOUT (hw w)) = HAL_OK"
    and "temp_t \<noteq> MLX90614_Temp_K" and "temp_t \<noteq> MLX90614_Temp_C" and "temp_t \<noteq> MLX90614_Temp_F"
  shows "fst (init_mlx90614_module H hi2c a temp_t drv w) = MLX90614_EC_ERR
     \<and> fst (snd (init_mlx90614_module H hi2c a temp_t drv w)) =
         drv\<lparr>mlx90614_slave_address := a,
             mlx90614_slave_address_one_bit_left_shifted := push_bit 1 a,
             p_hi2c := hi2c\<rparr>"
  using assms
  by (auto simp: init_mlx90614_module_def switch_temp_t_def call_IsDeviceReady_def Let_def
      not_less split: prod.splits)

theorem init_not_atomic_witness:
  "fst (init_mlx90614_module (device_at 0x10 (0, 0)) 1 0x10 7 initial_driver (initial_world ()))
     = MLX90614_EC_ERR
   \<and> fst (snd (init_mlx90614_module (device_at 0x10 (0, 0)) 1 0x10 7 initial_driver (initial_world ())))
     = initial_driver\<lparr>mlx90614_slave_address := 0x10,
                      mlx90614_slave_address_one_bit_left_shifted := 0x20,
                      p_hi2c := 1\<rparr>
   \<and> fst (snd (init_mlx90614_module (device_at 0x10 (0, 0)) 1 0x10 7 initial_driver (initial_world ())))
     \<noteq> initial_driver"
  using init_not_atomic [where H = "device_at 0x10 (0, 0)" and a = "0x10" and drv = initial_driver
      and w = "initial_world ()" and temp_t = 7 and hi2c = 1]
  by (simp add: device_at_def initial_driver_def initial_world_def mlx_consts)

section \<open>Properties of the address rewrite\<close>

lemma pec_erase_0xB4: "foldl calculate_pec 0 [0xB4, 0x2E, 0, 0] = 0xAF"
  by code_simp

lemma pec_write_0xB4: "foldl calculate_pec 0 [0xB4, 0x2E, 0x10, 0xBE] = 0xCB"
  by code_simp

text \<open>
  C2. For an address in range, \<^verbatim>\<open>set_mlx90614_device_slave_address\<close> issues, in this order:
  the read of the two-byte EEPROM cell 0x2E; the erase command (payload 0, 0 and its PEC);
  the delay of 1000 ms; the write command (the new address, the high byte obtained by the
  read, and its PEC); the delay of 1000 ms; and then overwrites the believed address. The
  status of each transport call is mapped and checked on its own: the first call that is not
  \<^verbatim>\<open>HAL_OK\<close> ends the sequence with its mapped status, the globals unchanged and nothing
  further issued. In particular a failed erase is never followed by the write.
\<close>

theorem rewrite_device_address_sequence:
  fixes H :: "'b HAL"
  assumes "MLX90614_MIN_VALID_SLAVE_ADDRESS_VALUE \<le> a"
    and "a \<le> MLX90614_MAX_VALID_SLAVE_ADDRESS_VALUE"
    and "wire = mlx90614_slave_address_one_bit_left_shifted drv"
    and "erase_cmd = [0x2E, 0, 0, foldl calculate_pec 0 [wire, 0x2E, 0, 0]]"
    and "HAL_I2C_Mem_Read H (p_hi2c drv) wire 0x2E 1 2 100 (hw w) = ((st_read, lo, hi), bus_read)"
    and "HAL_I2C_Master_Transmit H (p_hi2c drv) wire erase_cmd 4 100 bus_read = (st_erase, bus_erase)"
    and "write_cmd = [0x2E, a, hi, foldl calculate_pec 0 [wire, 0x2E, a, hi]]"
    and "HAL_I2C_Master_Transmit H (p_hi2c drv) wire write_cmd 4 100 (HAL_Delay H 1000 bus_erase) = (st_write, bus_write)"
  shows "set_mlx90614_device_slave_address H a drv w =
     (if st_read \<noteq> HAL_OK then
        (HAL_ret_handler st_read, drv,
         w\<lparr>hw := bus_read, trace := trace w @ [Call_Mem_Read (p_hi2c drv) wire 0x2E 1 2 100]\<rparr>)
      else if st_erase \<noteq> HAL_OK then
        (HAL_ret_handler st_erase, drv,
         w\<lparr>hw := bus_erase, trace := trace w @ [Call_Mem_Read (p_hi2c drv) wire 0x2E 1 2 100,
                                          Call_Master_Transmit (p_hi2c drv) wire erase_cmd 4 100]\<rparr>)
      else if st_write \<noteq> HAL_OK then
        (HAL_ret_handler st_write, drv,
         w\<lparr>hw := bus_write, trace := trace w @ [Call_Mem_Read (p_hi2c drv) wire 0x2E 1 2 100,
                                          Call_Master_Transmit (p_hi2c drv) wire erase_cmd 4 100,
                                          Call_Delay 1000,
                                          Call_Master_Transmit (p_hi2c drv) wire write_cmd 4 100]\<rparr>)
      else
        (MLX90614_EC_OK,
         drv\<lparr>mlx90614_slave_address := a,
             mlx90614_slave_address_one_bit_left_shifted := push_bit 1 a\<rparr>,
         w\<lparr>hw := HAL_Delay H 1000 bus_write,
           trace := trace w @ [Call_Mem_Read (p_hi2c drv) wire 0x2E 1 2 100,
                               Call_Master_Transmit (p_hi2c drv) wire erase_cmd 4 100,
                               Call_Delay 1000,
                               Call_Master_Transmit (p_hi2c drv) wire write_cmd 4 100,
                               Call_Delay 1000]\<rparr>))"
proof -
  have rng: "\<not> (a > MLX90614_MAX_VALID_SLAVE_ADDRESS_VALUE \<or> a < MLX90614_MIN_VALID_SLAVE_ADDRESS_VALUE)"
    using assms(1,2) by (simp add: not_less)
  show ?thesis
    using rng assms(3-8)
    by (simp add: set_mlx90614_device_slave_address_def erase_command_def write_command_def
        mlx_consts call_Mem_Read_def call_Master_Transmit_def call_Delay_def Let_def
        HAL_ret_handler_OK_iff)
qed

theorem rewrite_device_address_sequence_witness:
  "set_mlx90614_device_slave_address scripted 0x10 default_driver
     (initial_world [(HAL_OK, 0x5A, 0xBE), (HAL_OK, 0, 0), (HAL_OK, 0, 0)])
   = (MLX90614_EC_OK,
      default_driver\<lparr>mlx90614_slave_address := 0x10,
                     mlx90614_slave_address_one_bit_left_shifted := 0x20\<rparr>,
      \<lparr>hw = [],
       trace = [Call_Mem_Read 1 0xB4 0x2E 1 2 100,
                Call_Master_Transmit 1 0xB4 [0x2E, 0, 0, 0xAF] 4 100,
                Call_Delay 1000,
                Call_Master_Transmit 1 0xB4 [0x2E, 0x10, 0xBE, 0xCB] 4 100,
                Call_Delay 1000],
       mem = (\<lambda>p. 0)\<rparr>)
   \<and> set_mlx90614_device_slave_address scripted 0x10 default_driver
     (initial_world [(HAL_OK, 0x5A, 0xBE), (HAL_BUSY, 0, 0), (HAL_OK, 0, 0)])
   = (MLX90614_EC_NR, default_driver,
      \<lparr>hw = [(HAL_OK, 0, 0)],
       trace = [Call_Mem_Read 1 0xB4 0x2E 1 2 100,
                Call_Master_Transmit 1 0xB4 [0x2E, 0, 0, 0xAF] 4 100],
       mem = (\<lambda>p. 0)\<rparr>)"
  using rewrite_device_address_sequence
      [where H = scripted and a = "0x10" and drv = default_driver
         and w = "initial_world [(HAL_OK, 0x5A, 0xBE), (HAL_OK, 0, 0), (HAL_OK, 0, 0)]"
         and wire = "0xB4" and erase_cmd = "[0x2E, 0, 0, 0xAF]" and write_cmd = "[0x2E, 0x10, 0xBE, 0xCB]"
         and st_read = HAL_OK and lo = "0x5A" and hi = "0xBE" and bus_read = "[(HAL_OK, 0, 0), (HAL_OK, 0, 0)]"
         and st_erase = HAL_OK and bus_erase = "[(HAL_OK, 0, 0)]" and st_write = HAL_OK and bus_write = "[]"]
    rewrite_device_address_sequence
      [where H = scripted and a = "0x10" and drv = default_driver
         and w = "initial_world [(HAL_OK, 0x5A, 0xBE), (HAL_BUSY, 0, 0), (HAL_OK, 0, 0)]"
         and wire = "0xB4" and erase_cmd = "[0x2E, 0, 0, 0xAF]" and write_cmd = "[0x2E, 0x10, 0xBE, 0xCB]"
         and st_read = HAL_OK and lo = "0x5A" and hi = "0xBE" and bus_read = "[(HAL_BUSY, 0, 0), (HAL_OK, 0, 0)]"
         and st_erase = HAL_BUSY and bus_erase = "[(HAL_OK, 0, 0)]" and st_write = HAL_OK and bus_write = "[]"]
    pec_erase_0xB4 pec_write_0xB4
  by (simp add: scripted_def default_driver_def initial_world_def mlx_consts)

text \<open>
  C5. The sequence has no read-back. On a device that acknowledges the erase and the write
  but keeps 0x5A in its address cell, rewriting to 0x10 returns \<^verbatim>\<open>MLX90614_EC_OK\<close> and
  believes 0x10; the only read issued is the one before the erase, and a read of the cell
  afterwards would still give 0x5A.
\<close>

theorem rewrite_has_no_read_back:
  "set_mlx90614_device_slave_address (device_at 0x5A (0x5A, 0xBE)) 0x10 default_driver (initial_world ())
   = (MLX90614_EC_OK,
      default_driver\<lparr>mlx90614_slave_address := 0x10,
                     mlx90614_slave_address_one_bit_left_shifted := 0x20\<rparr>,
      \<lparr>hw = (),
       trace = [Call_Mem_Read 1 0xB4 0x2E 1 2 100,
                Call_Master_Transmit 1 0xB4 [0x2E, 0, 0, 0xAF] 4 100,
                Call_Delay 1000,
                Call_Master_Transmit 1 0xB4 [0x2E, 0x10, 0xBE, 0xCB] 4 100,
                Call_Delay 1000],
       mem = (\<lambda>p. 0)\<rparr>)
   \<and> fst (HAL_I2C_Mem_Read (device_at 0x5A (0x5A, 0xBE)) 1 0xB4 0x2E 1 2 100 ()) = (HAL_OK, 0x5A, 0xBE)"
proof -
  have e: "calculate_pec (calculate_pec (calculate_pec (calculate_pec 0 0xB4) 0x2E) 0) 0 = 0xAF"
    using pec_erase_0xB4 by simp
  have wr: "calculate_pec (calculate_pec (calculate_pec (calculate_pec 0 0xB4) 0x2E) 0x10) 0xBE = 0xCB"
    using pec_write_0xB4 by simp
  show ?thesis
    by (simp add: set_mlx90614_device_slave_address_def device_at_def default_driver_def
        initial_world_def mlx_consts call_Mem_Read_def call_Master_Transmit_def call_Delay_def
        erase_command_def write_command_def Let_def e wr)
qed

section \<open>Properties of the temperature readings\<close>

lemma raw_temp_of_onto: "raw_temp_of (ucast r) (ucast (drop_bit 8 r)) = r"
  by (rule bit_word_eqI) (auto simp: raw_temp_of_def bit_simps)

lemma top_bit_16: "(w > 0x7FFF) = bit w 15" for w :: uint16_t
proof -
  have "(w \<le> 0x7FFF) = (unat w < 2 ^ 15)"
    by (auto simp: word_le_nat_alt)
  also have "\<dots> = (take_bit 15 (unat w) = unat w)"
    by (simp only: take_bit_nat_eq_self_iff)
  also have "\<dots> = (unat (take_bit 15 w) = unat w)"
    by (simp only: unsigned_take_bit_eq)
  also have "\<dots> = (take_bit 15 w = w)"
    by (simp only: word_unat_eq_iff)
  also have "\<dots> = (\<not> bit w 15)"
  proof
    assume "take_bit 15 w = w"
    then have "bit (take_bit 15 w) 15 = bit w 15" by simp
    then show "\<not> bit w 15" by (simp add: bit_simps)
  next
    assume n: "\<not> bit w 15"
    show "take_bit 15 w = w"
    proof (rule bit_word_eqI)
      fix n assume "n < LENGTH(16)"
      then have "n < 15 \<or> n = 15" by auto
      then show "bit (take_bit 15 w) n = bit w n"
        using n by (auto simp: bit_simps)
    qed
  qed
  finally show ?thesis by (simp add: not_le [symmetric])
qed

lemma raw_temp_of_top_bit: "(raw_temp_of lo hi > 0x7FFF) = bit hi 7"
  by (auto simp: top_bit_16 raw_temp_of_def bit_simps dest: bit_imp_le_length)

lemma getters_defined:
  fixes H :: "'b HAL"
  assumes "p_get_mlx90614_converted_temperature drv \<noteq> None"
  shows "get_mlx90614_ambient_temperature H dst drv w \<noteq> None
     \<and> get_mlx90614_object1_temperature H dst drv w \<noteq> None
     \<and> get_mlx90614_object2_temperature H dst drv w \<noteq> None"
  using assms
  by (auto simp: get_mlx90614_ambient_temperature_def get_mlx90614_object1_temperature_def
      get_mlx90614_object2_temperature_def Let_def split: prod.splits)

text \<open>
  C7. When the transport delivers a raw value with the top bit set (at least 0x8000), each
  of the three getters returns \<^verbatim>\<open>MLX90614_EC_ERR\<close>, whatever the driver's globals hold: any
  temperature type, any conversion pointer, even the null pointer, through which a call
  would be undefined. So the raw value reaches no conversion function, and nothing is
  stored.
\<close>

theorem error_flag_is_failure:
  fixes H :: "'b HAL"
  assumes "raw_temp_of lo hi \<ge> 0x8000"
  shows
  "(HAL_I2C_Mem_Read H (p_hi2c drv) (mlx90614_slave_address_one_bit_left_shifted drv)
        MLX90614_TA_RAM_ADDRESS 1 2 100 (hw w) = ((HAL_OK, lo, hi), b) \<longrightarrow>
      get_mlx90614_ambient_temperature H dst drv w =
        Some (MLX90614_EC_ERR,
              w\<lparr>hw := b,
                trace := trace w @ [Call_Mem_Read (p_hi2c drv)
                  (mlx90614_slave_address_one_bit_left_shifted drv) 0x06 1 2 100]\<rparr>))
   \<and> (HAL_I2C_Mem_Read H (p_hi2c drv) (mlx90614_slave_address_one_bit_left_shifted drv)
        MLX90614_TOBJ1_RAM_ADDRESS 1 2 100 (hw w) = ((HAL_OK, lo, hi), b) \<longrightarrow>
      get_mlx90614_object1_temperature H dst drv w =
        Some (MLX90614_EC_ERR,
              w\<lparr>hw := b,
                trace := trace w @ [Call_Mem_Read (p_hi2c drv)
                  (mlx90614_slave_address_one_bit_left_shifted drv) 0x07 1 2 100]\<rparr>))
   \<and> (HAL_I2C_Mem_Read H (p_hi2c drv) (mlx90614_slave_address_one_bit_left_shifted drv)
        MLX90614_TOBJ2_RAM_ADDRESS 1 2 100 (hw w) = ((HAL_OK, lo, hi), b) \<longrightarrow>
      get_mlx90614_object2_temperature H dst drv w =
        Some (MLX90614_EC_ERR,
              w\<lparr>hw := b,
                trace := trace w @ [Call_Mem_Read (p_hi2c drv)
                  (mlx90614_slave_address_one_bit_left_shifted drv) 0x08 1 2 100]\<rparr>))"
proof -
  have gt: "raw_temp_of lo hi > 0x7FFF"
    using assms by (simp add: word_less_nat_alt word_le_nat_alt)
  show ?thesis
    using gt
    by (simp add: get_mlx90614_ambient_temperature_def get_mlx90614_object1_temperature_def
        get_mlx90614_object2_temperature_def call_Mem_Read_def mlx_consts Let_def)
qed

theorem error_flag_is_failure_witness:
  "get_mlx90614_ambient_temperature scripted 7 default_driver (initial_world [(HAL_OK, 0x00, 0x80)])
     = Some (MLX90614_EC_ERR,
             \<lparr>hw = [], trace = [Call_Mem_Read 1 0xB4 0x06 1 2 100], mem = (\<lambda>p. 0)\<rparr>)
   \<and> get_mlx90614_object1_temperature scripted 7 initial_driver (initial_world [(HAL_OK, 0x00, 0x80)])
     = Some (MLX90614_EC_ERR,
             \<lparr>hw = [], trace = [Call_Mem_Read 0 0 0x07 1 2 100], mem = (\<lambda>p. 0)\<rparr>)
   \<and> get_mlx90614_object2_temperature scripted 7 default_driver (initial_world [(HAL_OK, 0x00, 0x80)])
     = Some (MLX90614_EC_ERR,
             \<lparr>hw = [], trace = [Call_Mem_Read 1 0xB4 0x08 1 2 100], mem = (\<lambda>p. 0)\<rparr>)"
proof -
  have r: "raw_temp_of 0x00 0x80 \<ge> 0x8000"
    by (simp add: raw_temp_of_def)
  show ?thesis
    using error_flag_is_failure [OF r, where H = scripted and drv = default_driver and dst = 7
        and w = "initial_world [(HAL_OK, 0x00, 0x80)]" and b = "[]"]
      error_flag_is_failure [OF r, where H = scripted and drv = initial_driver and dst = 7
        and w = "initial_world [(HAL_OK, 0x00, 0x80)]" and b = "[]"]
    by (simp add: scripted_def default_driver_def initial_driver_def initial_world_def mlx_consts)
qed

text \<open>
  C9. For each of the three getters and every \<^verbatim>\<open>dst\<close>: when the getter returns
  \<^verbatim>\<open>MLX90614_EC_OK\<close>, the memory afterwards is the memory before with the converted value
  of a raw reading of at most 0x7FFF stored at \<^verbatim>\<open>dst\<close>; when it returns any other status
  (a mapped transport failure or the device error flag), the memory is unchanged.
\<close>

theorem dst_written_iff_success:
  fixes H :: "'b HAL"
  assumes "getter = get_mlx90614_ambient_temperature \<or> getter = get_mlx90614_object1_temperature
      \<or> getter = get_mlx90614_object2_temperature"
    and "getter H dst drv w = Some (st, w')"
  shows "(st = MLX90614_EC_OK \<longrightarrow>
            (\<exists>f raw_temp. p_get_mlx90614_converted_temperature drv = Some f \<and> raw_temp \<le> 0x7FFF
               \<and> mem w' = (mem w)(dst := f raw_temp)))
       \<and> (st \<noteq> MLX90614_EC_OK \<longrightarrow> mem w' = mem w)"
proof -
  have amb: "?thesis" if "get_mlx90614_ambient_temperature H dst drv w = Some (st, w')"
    using that
    by (auto simp: get_mlx90614_ambient_temperature_def call_Mem_Read_def Let_def not_less
        split: prod.splits if_splits option.splits)
  have ob1: "?thesis" if "get_mlx90614_object1_temperature H dst drv w = Some (st, w')"
    using that
    by (auto simp: get_mlx90614_object1_temperature_def call_Mem_Read_def Let_def not_less
        split: prod.splits if_splits option.splits)
  have ob2: "?thesis" if "get_mlx90614_object2_temperature H dst drv w = Some (st, w')"
    using that
    by (auto simp: get_mlx90614_object2_temperature_def call_Mem_Read_def Let_def not_less
        split: prod.splits if_splits option.splits)
  from assms amb ob1 ob2 show ?thesis by blast
qed

theorem dst_written_iff_success_witness:
  "get_mlx90614_ambient_temperature scripted 7 default_driver (initial_world [(HAL_OK, 0xEF, 0x35)])
     = Some (MLX90614_EC_OK,
             \<lparr>hw = [], trace = [Call_Mem_Read 1 0xB4 0x06 1 2 100],
              mem = (\<lambda>p. 0)(7 := get_mlx90614_converted_temperature_in_celsius 0x35EF)\<rparr>)
   \<and> (\<exists>f raw_temp. p_get_mlx90614_converted_temperature default_driver = Some f
          \<and> raw_temp \<le> 0x7FFF
          \<and> (\<lambda>p::nat. 0)(7 := get_mlx90614_converted_temperature_in_celsius 0x35EF)
              = (\<lambda>p. 0)(7 := f raw_temp))
   \<and> get_mlx90614_object1_temperature scripted 7 default_driver (initial_world [(HAL_ERROR, 0xEF, 0x35)])
     = Some (MLX90614_EC_ERR,
             \<lparr>hw = [], trace = [Call_Mem_Read 1 0xB4 0x07 1 2 100], mem = (\<lambda>p. 0)\<rparr>)
   \<and> get_mlx90614_object2_temperature scripted 7 default_driver (initial_world [(HAL_OK, 0x00, 0x80)])
     = Some (MLX90614_EC_ERR,
             \<lparr>hw = [], trace = [Call_Mem_Read 1 0xB4 0x08 1 2 100], mem = (\<lambda>p. 0)\<rparr>)"
proof -
  have a: "get_mlx90614_ambient_temperature scripted 7 default_driver
      (initial_world [(HAL_OK, 0xEF, 0x35)])
     = Some (MLX90614_EC_OK,
             \<lparr>hw = [], trace = [Call_Mem_Read 1 0xB4 0x06 1 2 100],
              mem = (\<lambda>p. 0)(7 := get_mlx90614_converted_temperature_in_celsius 0x35EF)\<rparr>)"
    by (simp add: get_mlx90614_ambient_temperature_def scripted_def default_driver_def
        initial_world_def mlx_consts call_Mem_Read_def raw_temp_of_def Let_def)
  have b: "get_mlx90614_object1_temperature scripted 7 default_driver
      (initial_world [(HAL_ERROR, 0xEF, 0x35)])
     = Some (MLX90614_EC_ERR,
             \<lparr>hw = [], trace = [Call_Mem_Read 1 0xB4 0x07 1 2 100], mem = (\<lambda>p. 0)\<rparr>)"
    by (simp add: get_mlx90614_object1_temperature_def scripted_def default_driver_def
        initial_world_def mlx_consts call_Mem_Read_def raw_temp_of_def Let_def)
  have c: "get_mlx90614_object2_temperature scripted 7 default_driver
      (initial_world [(HAL_OK, 0x00, 0x80)])
     = Some (MLX90614_EC_ERR,
             \<lparr>hw = [], trace = [Call_Mem_Read 1 0xB4 0x08 1 2 100], mem = (\<lambda>p. 0)\<rparr>)"
    by (simp add: get_mlx90614_object2_temperature_def scripted_def default_driver_def
        initial_world_def mlx_consts call_Mem_Read_def raw_temp_of_def Let_def)
  show ?thesis
    using dst_written_iff_success [where getter = get_mlx90614_ambient_temperature, OF _ a]
      dst_written_iff_success [where getter = get_mlx90614_object1_temperature, OF _ b]
      dst_written_iff_success [where getter = get_mlx90614_object2_temperature, OF _ c] a b c
    by (simp add: initial_world_def)
qed

section \<open>Properties of the conversions\<close>

text \<open>
  The rounding is the one intended: \<open>exponent2 x\<close> is the exponent of the leading bit of
  \<open>x\<close>, so the rounded value has \<open>p\<close> significant bits and differs from \<open>x\<close> by at most
  \<open>\<bar>x\<bar> / 2 ^ p\<close>.
\<close>

lemma two_power_powi: "two_power e = 2 powi e"
  by (simp add: two_power_def power_int_def inverse_eq_divide power_one_over)

lemma two_power_pos: "0 < two_power e"
  by (simp add: two_power_powi zero_less_power_int)

lemma two_power_add: "two_power (a + b) = two_power a * two_power b"
  by (simp add: two_power_powi power_int_add)

lemma two_power_nat: "two_power (int n) = 2 ^ n"
  by (simp add: two_power_def)

lemma round_half_even_error: "\<bar>real_of_int (round_half_even x) - x\<bar> \<le> 1 / 2"
  unfolding round_half_even_def Let_def
  by (auto simp: abs_le_iff)

lemma exponent2_lower:
  assumes "x \<noteq> 0"
  shows "two_power (exponent2 x) \<le> \<bar>x\<bar>"
proof (cases "1 \<le> \<bar>x\<bar>")
  case True
  let ?n = "nat \<lfloor>\<bar>x\<bar>\<rfloor>"
  have n: "0 < ?n" using True by simp
  have k: "0 < floorlog 2 ?n" using n by (simp add: floorlog_def)
  have "2 ^ (floorlog 2 ?n - 1) \<le> ?n"
    using floorlog_bounds [where b = 2 and x = ?n] n by simp
  then have "(2::real) ^ (floorlog 2 ?n - 1) \<le> real ?n"
    by (metis of_nat_le_iff of_nat_numeral of_nat_power)
  also have "real ?n \<le> \<bar>x\<bar>" using True by simp
  finally have "(2::real) ^ (floorlog 2 ?n - 1) \<le> \<bar>x\<bar>" .
  moreover have "exponent2 x = int (floorlog 2 ?n - 1)"
    using True k by (simp add: exponent2_def)
  ultimately show ?thesis by (simp only: two_power_nat)
next
  case False
  let ?m = "nat (\<lceil>1 / \<bar>x\<bar>\<rceil> - 1)"
  have xp: "0 < \<bar>x\<bar>" using assms by simp
  have "1 / \<bar>x\<bar> \<le> real_of_int \<lceil>1 / \<bar>x\<bar>\<rceil>" by (rule le_of_int_ceiling)
  also have "\<dots> \<le> real ?m + 1" by simp
  also have "real ?m + 1 \<le> 2 ^ floorlog 2 ?m"
  proof -
    have "?m < 2 ^ floorlog 2 ?m"
    proof (cases "?m = 0")
      case True then show ?thesis by simp
    next
      case False then show ?thesis using floorlog_bounds [where b = 2 and x = ?m] by simp
    qed
    then have "Suc ?m \<le> 2 ^ floorlog 2 ?m" by (rule Suc_leI)
    then have "real (Suc ?m) \<le> real (2 ^ floorlog 2 ?m)" by (simp only: of_nat_le_iff)
    then show ?thesis by simp
  qed
  finally have "1 / \<bar>x\<bar> \<le> 2 ^ floorlog 2 ?m" .
  then have "1 \<le> 2 ^ floorlog 2 ?m * \<bar>x\<bar>"
    using xp by (simp add: divide_le_eq)
  then have "1 / 2 ^ floorlog 2 ?m \<le> \<bar>x\<bar>"
    by (simp add: divide_le_eq mult.commute)
  moreover have "two_power (exponent2 x) = 1 / 2 ^ floorlog 2 ?m"
    using False by (simp add: exponent2_def two_power_def)
  ultimately show ?thesis by simp
qed

lemma two_power_neg_nat: "two_power (- int n) = 1 / 2 ^ n"
proof (cases "n = 0")
  case True
  then show ?thesis by (simp add: two_power_def)
next
  case False
  then have "\<not> 0 \<le> - int n" by simp
  moreover have "nat (- (- int n)) = n" by simp
  ultimately show ?thesis by (simp only: two_power_def if_False)
qed

lemma exponent2_upper:
  assumes "x \<noteq> 0"
  shows "\<bar>x\<bar> < two_power (exponent2 x + 1)"
proof (cases "1 \<le> \<bar>x\<bar>")
  case True
  let ?n = "nat \<lfloor>\<bar>x\<bar>\<rfloor>"
  have n: "0 < ?n" using True by simp
  have "?n < 2 ^ floorlog 2 ?n"
    using floorlog_bounds [where b = 2 and x = ?n] n by simp
  then have "Suc ?n \<le> 2 ^ floorlog 2 ?n" by (rule Suc_leI)
  then have "real (Suc ?n) \<le> real (2 ^ floorlog 2 ?n)" by (simp only: of_nat_le_iff)
  then have le: "real ?n + 1 \<le> 2 ^ floorlog 2 ?n" by simp
  have "\<bar>x\<bar> < real_of_int \<lfloor>\<bar>x\<bar>\<rfloor> + 1" by linarith
  also have "real_of_int \<lfloor>\<bar>x\<bar>\<rfloor> = real ?n" using True by simp
  finally have "\<bar>x\<bar> < 2 ^ floorlog 2 ?n" using le by linarith
  moreover have "exponent2 x + 1 = int (floorlog 2 ?n)"
    using True by (simp add: exponent2_def)
  ultimately show ?thesis by (simp only: two_power_nat)
next
  case False
  let ?m = "nat (\<lceil>1 / \<bar>x\<bar>\<rceil> - 1)"
  have xp: "0 < \<bar>x\<bar>" using assms by simp
  have big: "1 < 1 / \<bar>x\<bar>" using False xp by (simp add: less_divide_eq)
  then have two: "2 \<le> \<lceil>1 / \<bar>x\<bar>\<rceil>" by linarith
  then have m: "0 < ?m" by simp
  then have k: "0 < floorlog 2 ?m" by (simp add: floorlog_def)
  have "2 ^ (floorlog 2 ?m - 1) \<le> ?m"
    using floorlog_bounds [where b = 2 and x = ?m] m by simp
  then have "real (2 ^ (floorlog 2 ?m - 1)) \<le> real ?m" by (simp only: of_nat_le_iff)
  then have "(2::real) ^ (floorlog 2 ?m - 1) \<le> real ?m" by simp
  also have "real ?m = real_of_int \<lceil>1 / \<bar>x\<bar>\<rceil> - 1"
  proof -
    have "0 \<le> \<lceil>1 / \<bar>x\<bar>\<rceil> - 1" using two by linarith
    then have "real ?m = real_of_int (\<lceil>1 / \<bar>x\<bar>\<rceil> - 1)" by (rule of_nat_nat)
    also have "\<dots> = real_of_int \<lceil>1 / \<bar>x\<bar>\<rceil> - 1" by (simp only: of_int_diff of_int_1)
    finally show ?thesis .
  qed
  also have "\<dots> < 1 / \<bar>x\<bar>" by linarith
  finally have "(2::real) ^ (floorlog 2 ?m - 1) * \<bar>x\<bar> < 1"
    using xp by (simp add: less_divide_eq)
  then have "\<bar>x\<bar> < 1 / 2 ^ (floorlog 2 ?m - 1)"
    by (simp add: less_divide_eq mult.commute)
  moreover have "two_power (exponent2 x + 1) = 1 / 2 ^ (floorlog 2 ?m - 1)"
  proof -
    have "exponent2 x + 1 = - int (floorlog 2 ?m - 1)"
      using False k by (simp add: exponent2_def)
    then show ?thesis by (simp only: two_power_neg_nat)
  qed
  ultimately show ?thesis by simp
qed

lemma round_to_precision_error:
  "\<bar>round_to_precision p x - x\<bar> \<le> \<bar>x\<bar> / 2 ^ p"
proof (cases "x = 0")
  case True
  then show ?thesis by (simp add: round_to_precision_def)
next
  case False
  define e where "e = exponent2 x - int p + 1"
  define t where "t = two_power e"
  have tp: "0 < t" by (simp add: t_def two_power_pos)
  have r: "round_to_precision p x = of_int (round_half_even (x / t)) * t"
    using False by (simp add: round_to_precision_def e_def t_def Let_def)
  have "\<bar>of_int (round_half_even (x / t)) * t - x\<bar> = \<bar>of_int (round_half_even (x / t)) - x / t\<bar> * t"
  proof -
    have "of_int (round_half_even (x / t)) * t - x = (of_int (round_half_even (x / t)) - x / t) * t"
      using tp by (simp add: field_simps)
    then show ?thesis using tp by (simp add: abs_mult)
  qed
  also have "\<dots> \<le> 1 / 2 * t"
    using round_half_even_error [of "x / t"] tp by (simp add: mult_right_mono)
  also have "1 / 2 * t = two_power (exponent2 x) / 2 ^ p"
  proof -
    have "exponent2 x = e + (int p - 1)" by (simp add: e_def)
    then have "two_power (exponent2 x) = t * two_power (int p - 1)"
      by (simp only: two_power_add t_def)
    moreover have "two_power (int p - 1) * 2 = 2 ^ p"
    proof -
      have "two_power (int p - 1) * two_power 1 = two_power (int p)"
        by (simp only: two_power_add [symmetric]) simp
      then show ?thesis by (simp add: two_power_nat) (simp add: two_power_def)
    qed
    ultimately show ?thesis using tp by (simp add: field_simps)
  qed
  also have "\<dots> \<le> \<bar>x\<bar> / 2 ^ p"
    using exponent2_lower [OF False] by (simp add: divide_right_mono)
  finally show ?thesis by (simp only: r)
qed

lemma to_float_error: "\<bar>to_float x - x\<bar> \<le> \<bar>x\<bar> / 16777216"
  using round_to_precision_error [of 24 x] by (simp add: to_float_def)

lemma to_double_error: "\<bar>to_double x - x\<bar> \<le> \<bar>x\<bar> / 9007199254740992"
  using round_to_precision_error [of 53 x] by (simp add: to_double_def)

text \<open>
  The \<^verbatim>\<open>double\<close> constants of the source and the three conversions of the raw value 13807,
  as exact fractions: 276.1400146484375, 2.9900000095367431640625 and 37.38199996948242.
\<close>

lemmas float_eval = to_float_def to_double_def round_to_precision_def exponent2_def
  round_half_even_def two_power_def Let_def compute_floorlog

lemma to_double_50: "to_double 50.0 = 50" by (simp add: float_eval)
lemma to_double_32: "to_double 32.0 = 32" by (simp add: float_eval)
lemma to_double_273_15: "to_double 273.15 = 2402652809016115 / 8796093022208"
  by (simp add: float_eval)
lemma to_double_1_8: "to_double 1.8 = 8106479329266893 / 4503599627370496"
  by (simp add: float_eval)

lemma kelvin_13807: "get_mlx90614_converted_temperature_in_kelvin 13807 = 2262139 / 8192"
  by (simp add: get_mlx90614_converted_temperature_in_kelvin_def float_eval)

lemma celsius_13807: "get_mlx90614_converted_temperature_in_celsius 13807 = 12540969 / 4194304"
  by (simp add: get_mlx90614_converted_temperature_in_celsius_def float_eval)

lemma fahrenheit_13807: "get_mlx90614_converted_temperature_in_fahrenheit 13807 = 9799467 / 262144"
  by (simp add: get_mlx90614_converted_temperature_in_fahrenheit_def float_eval)

text \<open>
  For every raw value the three conversions are within 1e-3 of the exact values of
  \<open>r / 50\<close>, \<open>r / 50 - 273.15\<close> and \<open>(r / 50 - 273.15) * 1.8 + 32\<close>.
\<close>

lemma to_float_error_bound: "\<bar>x\<bar> \<le> B \<Longrightarrow> \<bar>to_float x - x\<bar> \<le> B / 16777216"
  using to_float_error [of x] by linarith

lemma to_double_error_bound: "\<bar>x\<bar> \<le> B \<Longrightarrow> \<bar>to_double x - x\<bar> \<le> B / 9007199254740992"
  using to_double_error [of x] by linarith

lemma raw_temp_range: "0 \<le> real (unat raw_temp) \<and> real (unat raw_temp) \<le> 65535"
  for raw_temp :: uint16_t
proof -
  have "unat raw_temp < 2 ^ LENGTH(16)" by (rule unsigned_less)
  then have "unat raw_temp \<le> 65535" by simp
  then have "real (unat raw_temp) \<le> real 65535" by (simp only: of_nat_le_iff)
  moreover have "0 \<le> real (unat raw_temp)" by (rule of_nat_0_le_iff)
  ultimately show ?thesis by simp
qed

lemma conversions_follow_formulas:
  "\<bar>get_mlx90614_converted_temperature_in_kelvin raw_temp - real (unat raw_temp) / 50\<bar> \<le> 1 / 1000
   \<and> \<bar>get_mlx90614_converted_temperature_in_celsius raw_temp
        - (real (unat raw_temp) / 50 - 273.15)\<bar> \<le> 1 / 1000
   \<and> \<bar>get_mlx90614_converted_temperature_in_fahrenheit raw_temp
        - ((real (unat raw_temp) / 50 - 273.15) * 1.8 + 32)\<bar> \<le> 1 / 1000"
proof -
  define r where "r = real (unat raw_temp)"
  define a where "a = to_float r"
  define b where "b = to_double (a / 50)"
  define c where "c = to_double (b - 2402652809016115 / 8796093022208)"
  define d where "d = to_double (c * (8106479329266893 / 4503599627370496))"
  define e where "e = to_double (d + 32)"
  have r: "0 \<le> r \<and> r \<le> 65535" using raw_temp_range [of raw_temp] by (simp add: r_def)
  then have "\<bar>r\<bar> \<le> 65535" by linarith
  then have a: "\<bar>a - r\<bar> \<le> 65535 / 16777216"
    unfolding a_def by (rule to_float_error_bound)
  have "\<bar>a / 50\<bar> \<le> 1311" using r a by linarith
  then have b: "\<bar>b - a / 50\<bar> \<le> 1311 / 9007199254740992"
    unfolding b_def by (rule to_double_error_bound)
  have bb: "\<bar>b\<bar> \<le> 1311" using r a b by linarith
  then have k: "\<bar>to_float b - b\<bar> \<le> 1311 / 16777216"
    by (rule to_float_error_bound)
  have "\<bar>b - 2402652809016115 / 8796093022208\<bar> \<le> 1311" using r a b by linarith
  then have c: "\<bar>c - (b - 2402652809016115 / 8796093022208)\<bar> \<le> 1311 / 9007199254740992"
    unfolding c_def by (rule to_double_error_bound)
  have cb: "\<bar>c\<bar> \<le> 1311" using r a b c by linarith
  then have cc: "\<bar>to_float c - c\<bar> \<le> 1311 / 16777216"
    by (rule to_float_error_bound)
  have "\<bar>c * (8106479329266893 / 4503599627370496)\<bar> \<le> 2360" using cb by linarith
  then have d: "\<bar>d - c * (8106479329266893 / 4503599627370496)\<bar> \<le> 2360 / 9007199254740992"
    unfolding d_def by (rule to_double_error_bound)
  have "\<bar>d + 32\<bar> \<le> 2400" using cb d by linarith
  then have e: "\<bar>e - (d + 32)\<bar> \<le> 2400 / 9007199254740992"
    unfolding e_def by (rule to_double_error_bound)
  have "\<bar>e\<bar> \<le> 2400" using cb d e by linarith
  then have f: "\<bar>to_float e - e\<bar> \<le> 2400 / 16777216"
    by (rule to_float_error_bound)
  have K: "get_mlx90614_converted_temperature_in_kelvin raw_temp = to_float b"
    by (simp only: get_mlx90614_converted_temperature_in_kelvin_def to_double_50 a_def b_def r_def)
  have C: "get_mlx90614_converted_temperature_in_celsius raw_temp = to_float c"
    by (simp only: get_mlx90614_converted_temperature_in_celsius_def to_double_50
        to_double_273_15 a_def b_def c_def r_def)
  have F: "get_mlx90614_converted_temperature_in_fahrenheit raw_temp = to_float e"
    by (simp only: get_mlx90614_converted_temperature_in_fahrenheit_def to_double_50
        to_double_273_15 to_double_1_8 to_double_32 a_def b_def c_def d_def e_def r_def)
  have b': "\<bar>b - r / 50\<bar> \<le> 1 / 10000"
    using a b by linarith
  have c': "\<bar>c - (r / 50 - 5463 / 20)\<bar> \<le> 1 / 10000"
    using a b c by linarith
  have d': "\<bar>d - (9 * r / 250 - 49167 / 100)\<bar> \<le> 2 / 10000"
    using c' cb d by linarith
  have e': "\<bar>e - (9 * r / 250 - 45967 / 100)\<bar> \<le> 3 / 10000"
    using d' e by linarith
  have 1: "\<bar>to_float b - r / 50\<bar> \<le> 1 / 1000"
    using b' k by linarith
  have 2: "\<bar>to_float c - (r / 50 - 5463 / 20)\<bar> \<le> 1 / 1000"
    using c' cc by linarith
  have 3: "\<bar>to_float e - (9 * r / 250 - 45967 / 100)\<bar> \<le> 1 / 1000"
    using e' f by linarith
  have eq2: "r / 50 - 273.15 = r / 50 - 5463 / 20"
    by simp
  have eq3: "(r / 50 - 5463 / 20) * 1.8 + 32 = 9 * r / 250 - 45967 / 100"
    by (simp add: field_simps)
  show ?thesis
    unfolding K C F r_def [symmetric] eq2 eq3 using 1 2 3 by blast
qed

text \<open>
  C8, as stated, fails: for the raw value 13807 the Celsius conversion is not within 1e-3
  of 0.0 and the Fahrenheit conversion is not within 1e-2 of 32.0.
\<close>

theorem conversion_vector_counterexample:
  "\<not> \<bar>get_mlx90614_converted_temperature_in_celsius 13807 - 0\<bar> \<le> 1 / 1000
   \<and> \<not> \<bar>get_mlx90614_converted_temperature_in_fahrenheit 13807 - 32\<bar> \<le> 1 / 100"
  by (simp add: celsius_13807 fahrenheit_13807)

text \<open>
  C8, amended. For the raw value 13807 the Kelvin conversion yields 276.14 within 1e-3, the
  Celsius conversion 2.99 within 1e-3 and the Fahrenheit conversion 37.382 within 1e-2; and
  for every raw value \<open>r\<close> the conversions are \<open>r / 50\<close>, \<open>r / 50 - 273.15\<close> and
  \<open>(r / 50 - 273.15) * 1.8 + 32\<close> up to the rounding of \<^verbatim>\<open>float\<close>, within 1e-3.
\<close>

theorem conversion_vector:
  "\<bar>get_mlx90614_converted_temperature_in_kelvin 13807 - 276.14\<bar> \<le> 1 / 1000
   \<and> \<bar>get_mlx90614_converted_temperature_in_celsius 13807 - 2.99\<bar> \<le> 1 / 1000
   \<and> \<bar>get_mlx90614_converted_temperature_in_fahrenheit 13807 - 37.382\<bar> \<le> 1 / 100
   \<and> \<bar>get_mlx90614_converted_temperature_in_kelvin raw_temp - real (unat raw_temp) / 50\<bar>
        \<le> 1 / 1000
   \<and> \<bar>get_mlx90614_converted_temperature_in_celsius raw_temp
        - (real (unat raw_temp) / 50 - 273.15)\<bar> \<le> 1 / 1000
   \<and> \<bar>get_mlx90614_converted_temperature_in_fahrenheit raw_temp
        - ((real (unat raw_temp) / 50 - 273.15) * 1.8 + 32)\<bar> \<le> 1 / 1000"
proof -
  have v: "\<bar>get_mlx90614_converted_temperature_in_kelvin 13807 - 276.14\<bar> \<le> 1 / 1000
      \<and> \<bar>get_mlx90614_converted_temperature_in_celsius 13807 - 2.99\<bar> \<le> 1 / 1000
      \<and> \<bar>get_mlx90614_converted_temperature_in_fahrenheit 13807 - 37.382\<bar> \<le> 1 / 100"
    by (simp add: kelvin_13807 celsius_13807 fahrenheit_13807)
  from v conversions_follow_formulas [of raw_temp] show ?thesis by blast
qed

end
